theory Spec2Isabelle
  imports Main
begin

section \<open>Python values\<close>

text \<open>
  A job and its fields arrive as decoded JSON: \<open>None\<close>, booleans, integers, strings,
  lists and dictionaries with string keys. Floating-point numbers are left out.
  A Python \<open>str\<close> is modelled as a \<open>string\<close>, each \<open>char\<close> standing for one code
  point in the range 0..255; \<open>length\<close> is then Python's \<open>len\<close> on that range.
\<close>

datatype pyval =
    PNone
  | PBool bool
  | PInt int
  | PStr string
  | PList "pyval list"
  | PDict "(string \<times> pyval) list"

text \<open>Truthiness, as tested by \<open>not x\<close> and \<open>x if c else y\<close>.\<close>

fun truthy :: "pyval \<Rightarrow> bool" where
  "truthy PNone = False"
| "truthy (PBool b) = b"
| "truthy (PInt i) = (i \<noteq> 0)"
| "truthy (PStr s) = (s \<noteq> [])"
| "truthy (PList xs) = (xs \<noteq> [])"
| "truthy (PDict kvs) = (kvs \<noteq> [])"

fun isinstance_str :: "pyval \<Rightarrow> bool" where
  "isinstance_str (PStr s) = True"
| "isinstance_str v = False"

fun isinstance_list :: "pyval \<Rightarrow> bool" where
  "isinstance_list (PList xs) = True"
| "isinstance_list v = False"

fun str_value :: "pyval \<Rightarrow> string" where
  "str_value (PStr s) = s"
| "str_value v = []"

fun list_value :: "pyval \<Rightarrow> pyval list" where
  "list_value (PList xs) = xs"
| "list_value v = []"

fun type_name :: "pyval \<Rightarrow> string" where
  "type_name PNone = ''NoneType''"
| "type_name (PBool b) = ''bool''"
| "type_name (PInt i) = ''int''"
| "type_name (PStr s) = ''str''"
| "type_name (PList xs) = ''list''"
| "type_name (PDict kvs) = ''dict''"

subsection \<open>String operations\<close>

text \<open>
  \<open>str.strip()\<close> removes the characters for which \<open>str.isspace\<close> holds from both
  ends. Below 256 these are the code points 9..13, 28..32, 0x85 and 0xA0.
\<close>

definition whitespace :: "char list" where
  "whitespace = [CHR 0x09, CHR 0x0A, CHR 0x0B, CHR 0x0C, CHR 0x0D, CHR 0x1C, CHR 0x1D,
     CHR 0x1E, CHR 0x1F, CHR 0x20, CHR 0x85, CHR 0xA0]"

definition isspace :: "char \<Rightarrow> bool" where
  "isspace c = (c \<in> set whitespace)"

definition strip :: "string \<Rightarrow> string" where
  "strip s = rev (dropWhile isspace (rev (dropWhile isspace s)))"

text \<open>
  \<open>str.lower()\<close>: below 256 the upper-case letters are A..Z and 0xC0..0xDE without the
  multiplication sign 0xD7; each maps to the code point 32 above it.
\<close>

definition lower_char :: "char \<Rightarrow> char" where
  "lower_char c =
     (let n = (of_char c :: nat)
      in if (65 \<le> n \<and> n \<le> 90) \<or> (192 \<le> n \<and> n \<le> 222 \<and> n \<noteq> 215)
         then char_of (n + 32) else c)"

definition lower :: "string \<Rightarrow> string" where
  "lower s = map lower_char s"

definition startswith :: "string \<Rightarrow> string \<Rightarrow> bool" where
  "startswith s pre = (take (length pre) s = pre)"

definition endswith :: "string \<Rightarrow> string \<Rightarrow> bool" where
  "endswith s suf = (length suf \<le> length s \<and> drop (length s - length suf) s = suf)"

text \<open>\<open>sub in s\<close> on strings is the substring test.\<close>

fun contains_substring :: "string \<Rightarrow> string \<Rightarrow> bool" where
  "contains_substring sub [] = (sub = [])"
| "contains_substring sub (c # cs) = (startswith (c # cs) sub \<or> contains_substring sub cs)"

fun join :: "string \<Rightarrow> string list \<Rightarrow> string" where
  "join sep [] = []"
| "join sep [x] = x"
| "join sep (x # y # ys) = x @ sep @ join sep (y # ys)"

subsection \<open>The built-in \<open>str\<close> and \<open>repr\<close>\<close>

fun show_nat :: "nat \<Rightarrow> string" where
  "show_nat n =
     (if n < 10 then [char_of (48 + n)]
      else show_nat (n div 10) @ [char_of (48 + n mod 10)])"

definition hex_digit :: "nat \<Rightarrow> char" where
  "hex_digit d = (if d < 10 then char_of (48 + d) else char_of (87 + d))"

text \<open>
  \<open>repr\<close> of a string quotes it with \<open>'\<close>, or with \<open>"\<close> when the string holds a
  \<open>'\<close> and no \<open>"\<close>, and escapes the quote, the backslash and the characters that are
  not printable.
\<close>

definition repr_char :: "char \<Rightarrow> char \<Rightarrow> string" where
  "repr_char q c =
     (let n = (of_char c :: nat)
      in if c = q \<or> c = CHR 0x5C then [CHR 0x5C, c]
         else if c = CHR 0x09 then [CHR 0x5C, CHR ''t'']
         else if c = CHR 0x0A then [CHR 0x5C, CHR ''n'']
         else if c = CHR 0x0D then [CHR 0x5C, CHR ''r'']
         else if n < 32 \<or> n = 127 \<or> (128 \<le> n \<and> n \<le> 160) \<or> n = 173
           then [CHR 0x5C, CHR ''x'', hex_digit (n div 16), hex_digit (n mod 16)]
         else [c])"

definition repr_str :: "string \<Rightarrow> string" where
  "repr_str s =
     (let q = (if CHR 0x27 \<in> set s \<and> CHR 0x22 \<notin> set s then CHR 0x22 else CHR 0x27)
      in [q] @ concat (map (repr_char q) s) @ [q])"

fun py_repr :: "pyval \<Rightarrow> string" where
  "py_repr PNone = ''None''"
| "py_repr (PBool b) = (if b then ''True'' else ''False'')"
| "py_repr (PInt i) = (if i < 0 then ''-'' @ show_nat (nat (- i)) else show_nat (nat i))"
| "py_repr (PStr s) = repr_str s"
| "py_repr (PList xs) = ''['' @ join '', '' (map py_repr xs) @ '']''"
| "py_repr (PDict kvs) =
     ''{'' @ join '', '' (map (\<lambda>kv. repr_str (fst kv) @ '': '' @ py_repr (snd kv)) kvs) @ ''}''"

fun py_str :: "pyval \<Rightarrow> string" where
  "py_str (PStr s) = s"
| "py_str v = py_repr v"

section \<open>Exceptions\<close>

text \<open>
  Every raise is a value \<open>Inl e\<close>. The kinds are the classes the source catches by
  name (\<open>ValueError\<close>, \<open>subprocess.TimeoutExpired\<close>) and the other subclasses of
  \<open>Exception\<close> that its operations raise; \<open>message\<close> is \<open>str(e)\<close>.
\<close>

datatype exn_kind = ValueError | TimeoutExpired | AttributeError | TypeError | OSError
  | RuntimeError

datatype pyexn = Exn (kind: exn_kind) (message: string)

definition attribute_error :: "pyval \<Rightarrow> string \<Rightarrow> pyexn" where
  "attribute_error obj attr =
     Exn AttributeError
       ([CHR 0x27] @ type_name obj @ [CHR 0x27] @ '' object has no attribute ''
          @ [CHR 0x27] @ attr @ [CHR 0x27])"

text \<open>\<open>obj.get(key, default)\<close>: only a dictionary has the method.\<close>

definition py_get :: "pyval \<Rightarrow> string \<Rightarrow> pyval \<Rightarrow> pyexn + pyval" where
  "py_get obj k d =
     (case obj of
        PDict kvs \<Rightarrow> Inr (case map_of kvs k of Some v \<Rightarrow> v | None \<Rightarrow> d)
      | _ \<Rightarrow> Inl (attribute_error obj ''get''))"

text \<open>\<open>key in obj\<close> for a string key: key test, element test, substring test, or a
  \<open>TypeError\<close> on a value that is not a container.\<close>

definition py_contains :: "pyval \<Rightarrow> string \<Rightarrow> pyexn + bool" where
  "py_contains obj k =
     (case obj of
        PDict kvs \<Rightarrow> Inr (k \<in> set (map fst kvs))
      | PList xs \<Rightarrow> Inr (PStr k \<in> set xs)
      | PStr s \<Rightarrow> Inr (contains_substring k s)
      | _ \<Rightarrow> Inl (Exn TypeError
          (''argument of type '' @ [CHR 0x27] @ type_name obj @ [CHR 0x27]
             @ '' is not iterable'')))"

text \<open>\<open>x.lower()\<close>: only a string has the method.\<close>

definition py_lower :: "pyval \<Rightarrow> pyexn + string" where
  "py_lower v =
     (case v of PStr s \<Rightarrow> Inr (lower s) | _ \<Rightarrow> Inl (attribute_error v ''lower''))"

section \<open>InputValidator\<close>

definition validate_text :: "pyval \<Rightarrow> pyexn + string" where
  "validate_text text =
     (if \<not> truthy text \<or> \<not> isinstance_str text
        then Inl (Exn ValueError ''Text must be a non-empty string'')
      else if length (str_value text) > 10000
        then Inl (Exn ValueError ''Text too long (max 10,000 characters)'')
      else Inr (strip (str_value text)))"

definition default_speakers :: "pyval list" where
  "default_speakers = [PStr ''Alice'', PStr ''Bob'']"

definition validate_speaker_names :: "pyval \<Rightarrow> string list" where
  "validate_speaker_names speaker_names =
     (let names0 = (if \<not> isinstance_list speaker_names then default_speakers
                    else list_value speaker_names);
          names1 = take 4 names0;
          names2 = (if length names1 < 2 then default_speakers else names1)
      in map (\<lambda>name. strip (py_str name))
           (filter (\<lambda>name. strip (py_str name) \<noteq> []) names2))"

definition allowed_formats :: "string list" where
  "allowed_formats = [''wav'', ''mp3'', ''flac'']"

definition validate_output_format :: "pyval \<Rightarrow> pyexn + string" where
  "validate_output_format format_type =
     (case (if truthy format_type then py_lower format_type else Inr ''wav'') of
        Inl e \<Rightarrow> Inl e
      | Inr format_type' \<Rightarrow>
          if format_type' \<notin> set allowed_formats then Inr ''wav'' else Inr format_type')"

section \<open>The process state and its surroundings\<close>

text \<open>
  The file system is a list of paths with their nodes, in the order in which a
  directory scan yields them; paths are absolute, in normal form and distinct. A node
  carries its modification time, the value \<open>os.path.getmtime\<close> returns, and a file its
  content.
\<close>

datatype node = File int string | Dir int

fun mtime :: "node \<Rightarrow> int" where
  "mtime (File t c) = t"
| "mtime (Dir t) = t"

fun is_file :: "node \<Rightarrow> bool" where
  "is_file (File t c) = True"
| "is_file (Dir t) = False"

type_synonym filesystem = "(string \<times> node) list"

text \<open>The calls that reach outside the interpreter are logged in the order they occur.\<close>

datatype event =
    CudaQuery
  | PathExists string
  | MakeTemp
  | MakeDirs string
  | RunProcess "string list"
  | ReadFile string
  | Unlink string

text \<open>
  The module's globals \<open>model_initialized\<close>, \<open>model_path\<close> and \<open>device\<close>, with the
  file system and the log of calls.
\<close>

record world =
  model_initialized :: bool
  model_path :: "string option"
  device :: "string option"
  fs :: filesystem
  trace :: "event list"

text \<open>What \<open>subprocess.run\<close> returns when the child exits.\<close>

datatype completed = Completed (returncode: int) (stdout: string) (stderr: string)

text \<open>
  What the surroundings answer during one call: whether CUDA is there (or the error
  the query raises), the variable \<open>MODEL_PATH\<close>, the fresh name of the temporary file
  (or the error of creating it), the error of writing it and of creating the output
  directory, if any, the time, and \<open>subprocess.run\<close>: from the command, the
  deadline in seconds and the file system the child finds, either an exception
  (\<open>TimeoutExpired\<close> after the child was killed at the deadline) or the completed
  process, and the file system left.
\<close>

record env =
  cuda_is_available :: "pyexn + bool"
  environ_MODEL_PATH :: "string option"
  temp_name :: "pyexn + string"
  write_fault :: "pyexn option"
  makedirs_fault :: "pyexn option"
  clock :: int
  subprocess_run ::
    "string list \<Rightarrow> nat \<Rightarrow> filesystem \<Rightarrow> (pyexn + completed) \<times> filesystem"

text \<open>
  The dictionary a job returns. A success carries the bytes of the audio file (sent
  base64-encoded), the format, the speakers and the length of the text; its size and
  timings, floating-point numbers read off the clock, are left out. A failure carries
  the \<open>error\<close> message, the \<open>stdout\<close> and \<open>stderr\<close> entries when present, and
  whether the usage \<open>example\<close> is attached.
\<close>

datatype result =
    Success (audio_data: string) (format: string) (speakers: "string list") (text_length: nat)
  | Failure (error: string) (stdout_entry: "string option") (stderr_entry: "string option")
      (example: bool)

definition failure :: "string \<Rightarrow> result" where
  "failure msg = Failure msg None None False"

subsection \<open>Operating-system calls\<close>

definition log :: "event \<Rightarrow> world \<Rightarrow> world" where
  "log e w = w\<lparr>trace := trace w @ [e]\<rparr>"

definition path_exists :: "string \<Rightarrow> world \<Rightarrow> bool \<times> world" where
  "path_exists p w = (p \<in> set (map fst (fs w)), log (PathExists p) w)"

text \<open>\<open>os.path.join(a, b)\<close> for a relative \<open>b\<close>.\<close>

definition path_join :: "string \<Rightarrow> string \<Rightarrow> string" where
  "path_join a b = (if a = [] \<or> last a = CHR ''/'' then a @ b else a @ ''/'' @ b)"

text \<open>\<open>Path(root).glob("**/*." + ext)\<close>: the entries below \<open>root\<close> whose name ends
  with the extension.\<close>

definition glob_ext :: "string \<Rightarrow> string \<Rightarrow> filesystem \<Rightarrow> (string \<times> node) list" where
  "glob_ext root ext files =
     filter (\<lambda>entry. startswith (fst entry) (root @ ''/'') \<and> endswith (fst entry) (''.'' @ ext))
       files"

text \<open>\<open>max(files, key=os.path.getmtime)\<close> on a list that is not empty: the first
  entry of greatest modification time.\<close>

fun max_by_mtime :: "string \<times> node \<Rightarrow> (string \<times> node) list \<Rightarrow> string \<times> node" where
  "max_by_mtime best [] = best"
| "max_by_mtime best (x # xs) =
     (if mtime (snd x) > mtime (snd best) then max_by_mtime x xs else max_by_mtime best xs)"

text \<open>\<open>NamedTemporaryFile(mode='w', suffix='.txt', delete=False)\<close>, the write and the
  close.\<close>

definition create_text_file :: "env \<Rightarrow> string \<Rightarrow> world \<Rightarrow> (pyexn + string) \<times> world" where
  "create_text_file env text w =
     (let w1 = log MakeTemp w
      in case temp_name env of
           Inl e \<Rightarrow> (Inl e, w1)
         | Inr p \<Rightarrow>
             (let others = filter (\<lambda>entry. fst entry \<noteq> p) (fs w1)
              in case write_fault env of
                   Some e \<Rightarrow> (Inl e, w1\<lparr>fs := others @ [(p, File (clock env) [])]\<rparr>)
                 | None \<Rightarrow> (Inr p, w1\<lparr>fs := others @ [(p, File (clock env) text)]\<rparr>)))"

text \<open>\<open>os.makedirs(d, exist_ok=True)\<close>.\<close>

definition makedirs :: "env \<Rightarrow> string \<Rightarrow> world \<Rightarrow> (pyexn + unit) \<times> world" where
  "makedirs env d w =
     (let w1 = log (MakeDirs d) w
      in case makedirs_fault env of
           Some e \<Rightarrow> (Inl e, w1)
         | None \<Rightarrow>
             (case map_of (fs w1) d of
                Some (File t c) \<Rightarrow>
                  (Inl (Exn OSError (''[Errno 17] File exists: '' @ repr_str d)), w1)
              | Some (Dir t) \<Rightarrow> (Inr (), w1)
              | None \<Rightarrow> (Inr (), w1\<lparr>fs := fs w1 @ [(d, Dir (clock env))]\<rparr>)))"

text \<open>\<open>subprocess.run(cmd, capture_output=True, text=True, cwd=..., timeout=300)\<close>.\<close>

definition run_process :: "env \<Rightarrow> string list \<Rightarrow> world \<Rightarrow> (pyexn + completed) \<times> world" where
  "run_process env cmd w =
     (let w1 = log (RunProcess cmd) w;
          (r, files) = subprocess_run env cmd 300 (fs w1)
      in (r, w1\<lparr>fs := files\<rparr>))"

text \<open>\<open>open(p, 'rb')\<close> and \<open>read\<close>.\<close>

definition read_file :: "string \<Rightarrow> world \<Rightarrow> (pyexn + string) \<times> world" where
  "read_file p w =
     (case map_of (fs w) p of
        Some (File t c) \<Rightarrow> Inr c
      | Some (Dir t) \<Rightarrow> Inl (Exn OSError (''[Errno 21] Is a directory: '' @ repr_str p))
      | None \<Rightarrow> Inl (Exn OSError (''[Errno 2] No such file or directory: '' @ repr_str p)),
      log (ReadFile p) w)"

text \<open>\<open>os.unlink(p)\<close> inside \<open>try: ... except: pass\<close>: a file is removed, and the
  error on a directory or a missing path is dropped.\<close>

definition unlink_quiet :: "string \<Rightarrow> world \<Rightarrow> world" where
  "unlink_quiet p w =
     log (Unlink p) (w\<lparr>fs := filter (\<lambda>entry. \<not> (fst entry = p \<and> is_file (snd entry))) (fs w)\<rparr>)"

section \<open>WorkerLifecycle: \<open>initialize_model\<close>\<close>

text \<open>\<open>os.environ.get('MODEL_PATH', '/app/models/VibeVoice-Large')\<close>.\<close>

definition resolve_model_path :: "env \<Rightarrow> string" where
  "resolve_model_path env =
     (case environ_MODEL_PATH env of
        Some v \<Rightarrow> v
      | None \<Rightarrow> ''/app/models/VibeVoice-Large'')"

text \<open>
  The body of the \<open>try\<close> of \<open>initialize_model\<close>, entered when the flag is not set.
  When \<open>config.json\<close> is missing the source looks for another configuration file
  only to write the log, and goes on either way.
\<close>

definition init_attempt :: "env \<Rightarrow> world \<Rightarrow> (pyexn + bool) \<times> world" where
  "init_attempt env w =
     (let w1 = log CudaQuery w
      in case cuda_is_available env of
           Inl e \<Rightarrow> (Inl e, w1)
         | Inr cuda \<Rightarrow>
             (let w2 = w1\<lparr>device := Some (if cuda then ''cuda'' else ''cpu'')\<rparr>;
                  p = resolve_model_path env;
                  w3 = w2\<lparr>model_path := Some p\<rparr>;
                  (found, w4) = path_exists p w3
              in if \<not> found then (Inr False, w4)
                 else (let (config_found, w5) = path_exists (path_join p ''config.json'') w4
                       in (Inr True, w5\<lparr>model_initialized := True\<rparr>))))"

text \<open>The \<open>try\<close> with its \<open>except Exception: return False\<close>.\<close>

definition init_guarded :: "env \<Rightarrow> world \<Rightarrow> bool \<times> world" where
  "init_guarded env w =
     (case init_attempt env w of
        (Inl e, w') \<Rightarrow> (False, w')
      | (Inr b, w') \<Rightarrow> (b, w'))"

definition initialize_model :: "env \<Rightarrow> world \<Rightarrow> bool \<times> world" where
  "initialize_model env w =
     (if model_initialized w then (True, w) else init_guarded env w)"

section \<open>GenerationOrchestrator: \<open>generate_audio\<close>\<close>

definition vibevoice_dir :: string where
  "vibevoice_dir = ''/app/VibeVoice''"

definition output_dir :: string where
  "output_dir = ''/tmp/vibevoice_output''"

definition demo_script :: string where
  "demo_script = ''/app/VibeVoice/demo/inference_from_file.py''"

definition possible_scripts :: "string list" where
  "possible_scripts =
     [''/app/VibeVoice/inference.py'', ''/app/VibeVoice/generate.py'',
      ''/app/VibeVoice/run_inference.py'']"

text \<open>The three validations at the head of \<open>generate_audio\<close>; the first error raised
  leaves the block.\<close>

definition validate_inputs :: "pyval \<Rightarrow> pyexn + (string \<times> string list \<times> string)" where
  "validate_inputs job_input =
     (case py_get job_input ''text'' (PStr []) of
        Inl e \<Rightarrow> Inl e
      | Inr raw_text \<Rightarrow>
     (case validate_text raw_text of
        Inl e \<Rightarrow> Inl e
      | Inr text \<Rightarrow>
     (case py_get job_input ''speaker_names'' (PList default_speakers) of
        Inl e \<Rightarrow> Inl e
      | Inr raw_names \<Rightarrow>
     (case py_get job_input ''output_format'' (PStr ''wav'') of
        Inl e \<Rightarrow> Inl e
      | Inr raw_format \<Rightarrow>
     (case validate_output_format raw_format of
        Inl e \<Rightarrow> Inl e
      | Inr output_format \<Rightarrow>
          Inr (text, validate_speaker_names raw_names, output_format))))))"

text \<open>The \<open>for script in possible_scripts\<close> loop with its \<open>break\<close>; \<open>None\<close> is the
  \<open>else\<close> of the loop.\<close>

fun first_existing :: "string list \<Rightarrow> world \<Rightarrow> string option \<times> world" where
  "first_existing [] w = (None, w)"
| "first_existing (script # scripts) w =
     (let (found, w1) = path_exists script w
      in if found then (Some script, w1) else first_existing scripts w1)"

definition select_script :: "world \<Rightarrow> string option \<times> world" where
  "select_script w =
     (let (found, w1) = path_exists demo_script w
      in if found then (Some demo_script, w1) else first_existing possible_scripts w1)"

text \<open>The \<open>for ext in ['wav', 'mp3', 'flac']\<close> loop with its \<open>break\<close>; it leaves the
  last list it has read in \<open>audio_files\<close>.\<close>

fun try_formats :: "string list \<Rightarrow> filesystem \<Rightarrow> (string \<times> node) list \<Rightarrow> (string \<times> node) list"
  where
  "try_formats [] files audio_files = audio_files"
| "try_formats (ext # exts) files audio_files =
     (let found = glob_ext vibevoice_dir ext files
      in if found \<noteq> [] then found else try_formats exts files found)"

definition find_audio_files :: "filesystem \<Rightarrow> string \<Rightarrow> (string \<times> node) list" where
  "find_audio_files files output_format =
     (let audio_files0 = glob_ext vibevoice_dir output_format files;
          audio_files1 = (if audio_files0 = []
                          then try_formats [''wav'', ''mp3'', ''flac''] files audio_files0
                          else audio_files0)
      in if audio_files1 = [] then glob_ext output_dir output_format files else audio_files1)"

text \<open>The branch \<open>result.returncode == 0\<close>.\<close>

definition collect_audio ::
  "completed \<Rightarrow> string \<Rightarrow> string list \<Rightarrow> string \<Rightarrow> world \<Rightarrow> (pyexn + result) \<times> world" where
  "collect_audio res text speaker_names output_format w =
     (case find_audio_files (fs w) output_format of
        [] \<Rightarrow>
          (Inr (Failure ''No audio file generated''
                  (Some (take 500 (stdout res))) (Some (take 500 (stderr res))) False), w)
      | first_file # more_files \<Rightarrow>
          (let latest_audio = fst (max_by_mtime first_file more_files)
           in case read_file latest_audio w of
                (Inl e, w1) \<Rightarrow> (Inl e, w1)
              | (Inr data, w1) \<Rightarrow>
                  (Inr (Success data output_format speaker_names (length text)),
                   unlink_quiet latest_audio w1)))"

text \<open>The inner \<open>try\<close> block. A \<open>model_path\<close> that is still \<open>None\<close> makes
  \<open>subprocess.run\<close> raise \<open>TypeError\<close> before any process is started.\<close>

definition run_generation ::
  "env \<Rightarrow> string \<Rightarrow> string list \<Rightarrow> string \<Rightarrow> string \<Rightarrow> world \<Rightarrow> (pyexn + result) \<times> world"
  where
  "run_generation env text speaker_names output_format txt_path w =
     (case select_script w of
        (None, w1) \<Rightarrow> (Inr (failure ''No inference script found in VibeVoice directory''), w1)
      | (Some script, w1) \<Rightarrow>
          (case model_path w1 of
             None \<Rightarrow>
               (Inl (Exn TypeError
                  ''expected str, bytes or os.PathLike object, not NoneType''), w1)
           | Some location \<Rightarrow>
               (let cmd = [''python'', script, ''--model_path'', location,
                           ''--txt_path'', txt_path, ''--speaker_names''] @ speaker_names
                in case run_process env cmd w1 of
                     (Inl e, w2) \<Rightarrow> (Inl e, w2)
                   | (Inr res, w2) \<Rightarrow>
                       if returncode res = 0
                       then collect_audio res text speaker_names output_format w2
                       else (Inr (Failure (''Generation failed: '' @ take 500 (stderr res))
                                    (Some (take 500 (stdout res))) None False), w2))))"

text \<open>The outer \<open>try\<close> block; the inner one is left through its \<open>finally\<close>.\<close>

definition generate_audio_try :: "env \<Rightarrow> pyval \<Rightarrow> world \<Rightarrow> (pyexn + result) \<times> world" where
  "generate_audio_try env job_input w =
     (case validate_inputs job_input of
        Inl e \<Rightarrow> (Inl e, w)
      | Inr (text, speaker_names, output_format) \<Rightarrow>
          (case initialize_model env w of
             (False, w1) \<Rightarrow> (Inr (failure ''Model initialization failed''), w1)
           | (True, w1) \<Rightarrow>
               (case create_text_file env text w1 of
                  (Inl e, w2) \<Rightarrow> (Inl e, w2)
                | (Inr txt_path, w2) \<Rightarrow>
                    (case makedirs env output_dir w2 of
                       (Inl e, w3) \<Rightarrow> (Inl e, w3)
                     | (Inr u, w3) \<Rightarrow>
                         (let (r, w4) = run_generation env text speaker_names output_format
                                          txt_path w3
                          in (r, unlink_quiet txt_path w4))))))"

text \<open>The three \<open>except\<close> clauses, in their order.\<close>

definition generate_audio :: "env \<Rightarrow> pyval \<Rightarrow> world \<Rightarrow> result \<times> world" where
  "generate_audio env job_input w =
     (case generate_audio_try env job_input w of
        (Inr r, w') \<Rightarrow> (r, w')
      | (Inl e, w') \<Rightarrow>
          (if kind e = ValueError then failure (''Invalid input: '' @ message e)
           else if kind e = TimeoutExpired
             then failure ''Generation timeout (5 minutes exceeded)''
           else failure (''Generation failed: '' @ message e), w'))"

section \<open>JobHandler: \<open>handler\<close>\<close>

definition usage :: "string \<Rightarrow> result" where
  "usage msg = Failure msg None None True"

definition handler_try :: "env \<Rightarrow> pyval \<Rightarrow> world \<Rightarrow> (pyexn + result) \<times> world" where
  "handler_try env job w =
     (case py_get job ''id'' (PStr ''unknown'') of
        Inl e \<Rightarrow> (Inl e, w)
      | Inr job_id \<Rightarrow>
     (case py_get job ''input'' (PDict []) of
        Inl e \<Rightarrow> (Inl e, w)
      | Inr job_input \<Rightarrow>
          if \<not> truthy job_input then (Inr (usage ''No input provided''), w)
          else (case py_contains job_input ''text'' of
                  Inl e \<Rightarrow> (Inl e, w)
                | Inr present \<Rightarrow>
                    if \<not> present
                    then (Inr (usage (''Missing required '' @ [CHR 0x27] @ ''text''
                                        @ [CHR 0x27] @ '' parameter'')), w)
                    else (let (r, w') = generate_audio env job_input w in (Inr r, w')))))"

text \<open>The \<open>try\<close> of \<open>handler\<close> with its \<open>except Exception\<close>. The result is a sum so
  that an exception leaving the handler would show as \<open>Inl\<close>.\<close>

definition handler :: "env \<Rightarrow> pyval \<Rightarrow> world \<Rightarrow> (pyexn + result) \<times> world" where
  "handler env job w =
     (case handler_try env job w of
        (Inl e, w') \<Rightarrow> (Inr (failure (''Handler failed: '' @ message e)), w')
      | (Inr r, w') \<Rightarrow> (Inr r, w'))"

section \<open>Calls of \<open>initialize_model\<close> that overlap\<close>





text \<open>Each attempt begins with the query of the device.\<close>

definition attempts :: "world \<Rightarrow> nat" where
  "attempts w = length (filter (\<lambda>e. e = CudaQuery) (trace w))"

definition runs :: "world \<Rightarrow> nat" where
  "runs w = length (filter (\<lambda>e. case e of RunProcess cmd \<Rightarrow> True | _ \<Rightarrow> False) (trace w))"

section \<open>The artifact search in the words of the specification\<close>

text \<open>
  The specification lists the places searched in order: the backend's tree for the
  requested format, then the tree for wav, mp3 and flac in turn, then the output
  directory; the first place that yields a file gives the candidates.
\<close>

fun first_nonempty :: "'a list list \<Rightarrow> 'a list" where
  "first_nonempty [] = []"
| "first_nonempty (xs # xss) = (if xs \<noteq> [] then xs else first_nonempty xss)"

definition search_order_spec :: "filesystem \<Rightarrow> string \<Rightarrow> (string \<times> node) list" where
  "search_order_spec files output_format =
     first_nonempty
       [glob_ext vibevoice_dir output_format files,
        glob_ext vibevoice_dir ''wav'' files,
        glob_ext vibevoice_dir ''mp3'' files,
        glob_ext vibevoice_dir ''flac'' files,
        glob_ext output_dir output_format files]"

section \<open>A worker and a job to run\<close>

text \<open>
  A fresh process whose model directory and demo script are installed, a job that
  names only its text, and surroundings whose child process ends with a given outcome
  and leaves a given file system.
\<close>

definition installed_files :: filesystem where
  "installed_files =
     [(''/app/models/VibeVoice-Large'', Dir 0),
      (''/app/VibeVoice/demo/inference_from_file.py'', File 0 [])]"

definition fresh_world :: world where
  "fresh_world =
     \<lparr>model_initialized = False, model_path = None, device = None,
      fs = installed_files, trace = []\<rparr>"

definition plain_job :: pyval where
  "plain_job = PDict [(''text'', PStr ''Speaker 1: Hi. Speaker 2: Hello.'')]"

definition temp_txt :: string where
  "temp_txt = ''/tmp/tmpk3v9xq2a.txt''"

definition surroundings :: "(pyexn + completed) \<Rightarrow> filesystem \<Rightarrow> env" where
  "surroundings outcome left_behind =
     \<lparr>cuda_is_available = Inr True, environ_MODEL_PATH = None, temp_name = Inr temp_txt,
      write_fault = None, makedirs_fault = None, clock = 5,
      subprocess_run = (\<lambda>cmd timeout found. (outcome, left_behind))\<rparr>"

text \<open>Surroundings whose child needs a given number of seconds to write its files and
  exit with status zero; \<open>subprocess.run\<close> kills it when the deadline is shorter.\<close>

definition slow_surroundings :: "nat \<Rightarrow> filesystem \<Rightarrow> env" where
  "slow_surroundings seconds left_behind =
     \<lparr>cuda_is_available = Inr True, environ_MODEL_PATH = None, temp_name = Inr temp_txt,
      write_fault = None, makedirs_fault = None, clock = 5,
      subprocess_run = (\<lambda>cmd timeout found.
        if timeout < seconds then (Inl (Exn TimeoutExpired ''timed out''), left_behind)
        else (Inr (Completed 0 [] []), left_behind))\<rparr>"

text \<open>The same process before its model directory is mounted.\<close>

definition unmounted_world :: world where
  "unmounted_world = fresh_world\<lparr>fs := []\<rparr>"

text \<open>
  A file system as a child may leave it: the text file of the job is still there, the
  backend's tree holds two mp3 files and no wav file, and the output directory holds
  an older wav file.
\<close>

definition left_with_mp3 :: filesystem where
  "left_with_mp3 =
     installed_files @
     [(temp_txt, File 5 ''Speaker 1: Hi. Speaker 2: Hello.''),
      (''/app/VibeVoice/outputs/old.mp3'', File 3 ''ID3-old''),
      (''/app/VibeVoice/outputs/new.mp3'', File 7 ''ID3-new''),
      (''/tmp/vibevoice_output/stale.wav'', File 2 ''RIFF'')]"

text \<open>A result is structured when it is a success or a failure with a message.\<close>

fun carries_message :: "result \<Rightarrow> bool" where
  "carries_message (Success data fmt names n) = True"
| "carries_message (Failure msg out err ex) = (msg \<noteq> [])"

section \<open>Properties of the input validators\<close>

lemma dropWhile_replicate_append:
  "P x \<Longrightarrow> dropWhile P (replicate n x @ ys) = dropWhile P ys"
  by (induction n) auto

lemma isspace_space: "isspace CHR '' ''"
  by (simp add: isspace_def whitespace_def)

lemma not_isspace_a: "\<not> isspace CHR ''a''"
  by (simp add: isspace_def whitespace_def)

lemma nonspace_survives:
  assumes "c \<in> set s" "\<not> isspace c"
  shows "c \<in> set (dropWhile isspace s)"
proof -
  have "set s = set (takeWhile isspace s) \<union> set (dropWhile isspace s)"
    by (metis set_append takeWhile_dropWhile_id)
  moreover have "c \<notin> set (takeWhile isspace s)"
    using assms(2) by (auto dest: set_takeWhileD)
  ultimately show ?thesis using assms(1) by auto
qed

lemma strip_nonempty: "\<exists>c\<in>set s. \<not> isspace c \<Longrightarrow> strip s \<noteq> []"
  unfolding strip_def
  by (auto simp: dropWhile_eq_Nil_conv dest: nonspace_survives)

lemma length_strip: "length (strip s) \<le> length s"
  unfolding strip_def
  by (metis length_dropWhile_le length_rev le_trans)

text \<open>
  Claim C1, as the code has it. \<open>validate_text\<close> rejects \<open>None\<close>, every value that is
  not a string and the empty string; it rejects as too long every string whose length
  before trimming exceeds 10,000; and for every string whose length before trimming is
  in [1, 10000] and that holds a character other than whitespace, it returns the
  trimmed string, which is then not empty and at most 10,000 characters long.
\<close>

theorem C1_validate_text_raw_length:
  "(\<not> truthy v \<or> \<not> isinstance_str v \<longrightarrow>
      validate_text v = Inl (Exn ValueError ''Text must be a non-empty string''))
   \<and> (10000 < length s \<longrightarrow>
      validate_text (PStr s) = Inl (Exn ValueError ''Text too long (max 10,000 characters)''))
   \<and> (1 \<le> length s \<and> length s \<le> 10000 \<and> (\<exists>c\<in>set s. \<not> isspace c) \<longrightarrow>
      validate_text (PStr s) = Inr (strip s) \<and> strip s \<noteq> [] \<and> length (strip s) \<le> 10000)"
proof (intro conjI impI)
  assume "\<not> truthy v \<or> \<not> isinstance_str v"
  then show "validate_text v = Inl (Exn ValueError ''Text must be a non-empty string'')"
    by (simp add: validate_text_def)
next
  assume "10000 < length s"
  then show "validate_text (PStr s) =
      Inl (Exn ValueError ''Text too long (max 10,000 characters)'')"
    by (auto simp: validate_text_def)
next
  assume h: "1 \<le> length s \<and> length s \<le> 10000 \<and> (\<exists>c\<in>set s. \<not> isspace c)"
  then show "validate_text (PStr s) = Inr (strip s)"
    by (auto simp: validate_text_def)
  from h show "strip s \<noteq> []" by (simp add: strip_nonempty)
  from h length_strip [of s] show "length (strip s) \<le> 10000" by linarith
qed

theorem C1_validate_text_raw_length_witness:
  "\<not> truthy PNone \<and>
   validate_text PNone = Inl (Exn ValueError ''Text must be a non-empty string'') \<and>
   10000 < length (replicate 10001 CHR ''a'') \<and>
   validate_text (PStr (replicate 10001 CHR ''a'')) =
     Inl (Exn ValueError ''Text too long (max 10,000 characters)'') \<and>
   1 \<le> length '' Hi there  '' \<and> length '' Hi there  '' \<le> 10000 \<and>
   (\<exists>c\<in>set '' Hi there  ''. \<not> isspace c) \<and>
   validate_text (PStr '' Hi there  '') = Inr ''Hi there''"
proof -
  have sp: "\<exists>c\<in>set '' Hi there  ''. \<not> isspace c"
    by (simp add: isspace_def whitespace_def)
  have st: "strip '' Hi there  '' = ''Hi there''"
    by (simp add: strip_def isspace_def whitespace_def)
  show ?thesis
    using C1_validate_text_raw_length [of PNone "replicate 10001 CHR ''a''"]
      C1_validate_text_raw_length [of PNone "'' Hi there  ''"] sp st
    by simp
qed

text \<open>
  Claim C1 as stated fails twice. The string of one letter followed by 10,000 spaces
  has length 1 after trimming and is rejected as too long, and the string of three
  spaces is accepted, with the empty string as the validated text.
\<close>

theorem C1_validate_text_counterexample:
  "validate_text (PStr ''   '') = Inr [] \<and>
   length (strip (CHR ''a'' # replicate 10000 CHR '' '')) = 1 \<and>
   validate_text (PStr (CHR ''a'' # replicate 10000 CHR '' '')) =
     Inl (Exn ValueError ''Text too long (max 10,000 characters)'')"
proof (intro conjI)
  show "validate_text (PStr ''   '') = Inr []"
    by (simp add: validate_text_def strip_def isspace_def whitespace_def)
  show "length (strip (CHR ''a'' # replicate 10000 CHR '' '')) = 1"
    by (simp add: strip_def dropWhile_replicate_append isspace_space not_isspace_a)
  show "validate_text (PStr (CHR ''a'' # replicate 10000 CHR '' '')) =
     Inl (Exn ValueError ''Text too long (max 10,000 characters)'')"
    by (simp add: validate_text_def)
qed

text \<open>
  Claim C2: the normalised speaker list always has at least two entries. The code
  tests the length before it drops the entries that are empty after trimming, so the
  list \<open>["Alice", ""]\<close> is normalised to the single speaker \<open>["Alice"]\<close>, and a list
  of two blank names to no speaker at all.
\<close>

theorem C2_validate_speaker_names_single_speaker:
  "validate_speaker_names (PList [PStr ''Alice'', PStr []]) = [''Alice''] \<and>
   validate_speaker_names (PList [PStr '' '', PStr []]) = []"
  by (simp add: validate_speaker_names_def strip_def isspace_def whitespace_def)

text \<open>
  Claim C3: \<open>validate_output_format\<close> returns for every input. On a value that is
  truthy and not a string, such as the number 5, the code calls \<open>lower\<close> on it and
  raises \<open>AttributeError\<close>.
\<close>

theorem C3_validate_output_format_raises:
  "validate_output_format (PInt 5) =
     Inl (Exn AttributeError
       (CHR 0x27 # ''int'' @ CHR 0x27 # '' object has no attribute '' @
          CHR 0x27 # ''lower'' @ [CHR 0x27]))"
  by (simp add: validate_output_format_def py_lower_def attribute_error_def)

section \<open>Evaluating the worker on the job\<close>

lemmas os_defs = path_exists_def log_def create_text_file_def makedirs_def run_process_def
  read_file_def unlink_quiet_def select_script_def path_join_def glob_ext_def
  startswith_def endswith_def
lemmas gen_defs = generate_audio_def generate_audio_try_def run_generation_def
  collect_audio_def find_audio_files_def validate_inputs_def validate_text_def
  validate_speaker_names_def validate_output_format_def py_get_def py_lower_def
  initialize_model_def init_guarded_def init_attempt_def resolve_model_path_def
  failure_def Let_def strip_def isspace_def whitespace_def allowed_formats_def
  default_speakers_def
lemmas example_defs = fresh_world_def installed_files_def plain_job_def temp_txt_def
  surroundings_def vibevoice_dir_def output_dir_def demo_script_def possible_scripts_def

lemma lower_wav: "lower ''wav'' = ''wav''"
  by code_simp

lemma validate_plain_job:
  "validate_inputs plain_job = Inr (''Speaker 1: Hi. Speaker 2: Hello.'', [''Alice'', ''Bob''], ''wav'')"
  by (simp add: gen_defs example_defs lower_wav)


section \<open>Properties of \<open>initialize_model\<close>\<close>

lemma attempts_log: "attempts (log e w) = attempts w + (if e = CudaQuery then 1 else 0)"
  by (simp add: attempts_def log_def)

lemma init_attempt_attempts: "attempts (snd (init_attempt env w)) = Suc (attempts w)"
  by (simp add: init_attempt_def path_exists_def log_def attempts_def Let_def
      split: sum.splits)

lemma init_guarded_attempts: "attempts (snd (init_guarded env w)) = Suc (attempts w)"
  using init_attempt_attempts [of env w]
  by (auto simp: init_guarded_def split: prod.splits sum.splits)

lemma init_guarded_flag:
  "\<not> model_initialized w \<Longrightarrow>
     model_initialized (snd (init_guarded env w)) = fst (init_guarded env w)"
  by (simp add: init_guarded_def init_attempt_def path_exists_def log_def Let_def
      split: sum.splits)

lemma init_guarded_ok:
  "cuda_is_available env = Inr c \<Longrightarrow> resolve_model_path env \<in> set (map fst (fs w)) \<Longrightarrow>
     fst (init_guarded env w)"
  by (simp add: init_guarded_def init_attempt_def path_exists_def log_def Let_def)

text \<open>
  Claim C5. Once the flag is set, a call of \<open>initialize_model\<close> returns \<open>True\<close> and
  leaves the process as it was, whatever the surroundings: nothing is queried and
  nothing logged. The flag after a call is set exactly when it was set before or the
  call returned \<open>True\<close>, so it is never cleared and a failed call leaves it unset. A
  call that finds the flag unset makes one attempt, also after earlier failures, and it
  succeeds as soon as the device query answers and the model path exists.
\<close>

theorem C5_initialize_model_ready_once:
  "(model_initialized w \<longrightarrow> initialize_model env w = (True, w))
   \<and> model_initialized (snd (initialize_model env w)) =
       (model_initialized w \<or> fst (initialize_model env w))
   \<and> (\<not> model_initialized w \<longrightarrow>
        attempts (snd (initialize_model env w)) = Suc (attempts w))
   \<and> (\<not> model_initialized w \<and> cuda_is_available env = Inr c
        \<and> resolve_model_path env \<in> set (map fst (fs w)) \<longrightarrow>
        fst (initialize_model env w) \<and> model_initialized (snd (initialize_model env w)))"
proof (intro conjI impI)
  show "model_initialized (snd (initialize_model env w)) =
       (model_initialized w \<or> fst (initialize_model env w))"
    using init_guarded_flag [of w env] by (simp add: initialize_model_def)
next
  assume "\<not> model_initialized w"
  then show "attempts (snd (initialize_model env w)) = Suc (attempts w)"
    by (simp add: initialize_model_def init_guarded_attempts)
next
  assume h: "\<not> model_initialized w \<and> cuda_is_available env = Inr c
        \<and> resolve_model_path env \<in> set (map fst (fs w))"
  then show ok: "fst (initialize_model env w)"
    using init_guarded_ok [of env c w] by (simp add: initialize_model_def)
  with h show "model_initialized (snd (initialize_model env w))"
    using init_guarded_flag [of w env] by (simp add: initialize_model_def)
qed (simp add: initialize_model_def)

theorem C5_initialize_model_ready_once_witness:
  "fst (initialize_model (surroundings (Inr (Completed 0 [] [])) []) fresh_world)
   \<and> attempts (snd (initialize_model (surroundings (Inr (Completed 0 [] [])) []) fresh_world)) = 1
   \<and> initialize_model (surroundings (Inl (Exn RuntimeError [])) [])
        (snd (initialize_model (surroundings (Inr (Completed 0 [] [])) []) fresh_world)) =
      (True, snd (initialize_model (surroundings (Inr (Completed 0 [] [])) []) fresh_world))
   \<and> \<not> fst (initialize_model (surroundings (Inr (Completed 0 [] [])) []) unmounted_world)
   \<and> \<not> model_initialized
          (snd (initialize_model (surroundings (Inr (Completed 0 [] [])) []) unmounted_world))"
proof -
  let ?env = "surroundings (Inr (Completed 0 [] [])) []"
  have fresh: "\<not> model_initialized fresh_world" "attempts fresh_world = 0"
    "cuda_is_available ?env = Inr True"
    "resolve_model_path ?env \<in> set (map fst (fs fresh_world))"
    by (simp_all add: fresh_world_def attempts_def surroundings_def resolve_model_path_def
        installed_files_def)
  have failed: "\<not> fst (initialize_model ?env unmounted_world)"
    "\<not> model_initialized unmounted_world"
    by (simp_all add: gen_defs os_defs example_defs unmounted_world_def)
  show ?thesis
    using C5_initialize_model_ready_once [of fresh_world ?env True]
      C5_initialize_model_ready_once
        [of "snd (initialize_model ?env fresh_world)" "surroundings (Inl (Exn RuntimeError [])) []" True]
      C5_initialize_model_ready_once [of unmounted_world ?env True]
      fresh failed
    by simp
qed

section \<open>Properties of the artifact search\<close>

lemma max_by_mtime_mem: "max_by_mtime best xs \<in> set (best # xs)"
  by (induction xs arbitrary: best) (auto split: if_splits)

lemma max_by_mtime_ge_best: "mtime (snd best) \<le> mtime (snd (max_by_mtime best xs))"
proof (induction xs arbitrary: best)
  case Nil
  show ?case by simp
next
  case (Cons x xs)
  show ?case
  proof (cases "mtime (snd x) > mtime (snd best)")
    case True
    with Cons [of x] show ?thesis by simp
  next
    case False
    with Cons [of best] show ?thesis by simp
  qed
qed

lemma max_by_mtime_greatest:
  "c \<in> set (best # xs) \<Longrightarrow> mtime (snd c) \<le> mtime (snd (max_by_mtime best xs))"
proof (induction xs arbitrary: best)
  case Nil
  then show ?case by simp
next
  case (Cons x xs)
  show ?case
  proof (cases "mtime (snd x) > mtime (snd best)")
    case True
    have step: "max_by_mtime best (x # xs) = max_by_mtime x xs"
      using True by simp
    have ge: "mtime (snd x) \<le> mtime (snd (max_by_mtime x xs))"
      by (rule max_by_mtime_ge_best)
    from Cons.prems consider "c = best" | "c \<in> set (x # xs)" by auto
    then show ?thesis
    proof cases
      case 1
      with True ge show ?thesis unfolding step by auto
    next
      case 2
      then show ?thesis unfolding step by (rule Cons.IH)
    qed
  next
    case False
    have step: "max_by_mtime best (x # xs) = max_by_mtime best xs"
      using False by simp
    have ge: "mtime (snd best) \<le> mtime (snd (max_by_mtime best xs))"
      by (rule max_by_mtime_ge_best)
    from Cons.prems consider "c = x" | "c \<in> set (best # xs)" by auto
    then show ?thesis
    proof cases
      case 1
      with False ge show ?thesis unfolding step by auto
    next
      case 2
      then show ?thesis unfolding step by (rule Cons.IH)
    qed
  qed
qed

lemma find_audio_files_spec:
  "find_audio_files files output_format = search_order_spec files output_format"
  by (simp add: find_audio_files_def search_order_spec_def Let_def)

lemma map_of_distinct_entry:
  "distinct (map fst files) \<Longrightarrow> (p, n) \<in> set files \<Longrightarrow> map_of files p = Some n"
  by simp

lemma glob_ext_mem: "x \<in> set (glob_ext root ext files) \<Longrightarrow> x \<in> set files"
  by (simp add: glob_ext_def)

lemma first_nonempty_mem: "first_nonempty xss \<noteq> [] \<Longrightarrow> first_nonempty xss \<in> set xss"
  by (induction xss) auto

lemma search_order_spec_subset: "set (search_order_spec files output_format) \<subseteq> set files"
proof (cases "search_order_spec files output_format = []")
  case True
  then show ?thesis by simp
next
  case False
  then have "search_order_spec files output_format \<in>
      set [glob_ext vibevoice_dir output_format files,
        glob_ext vibevoice_dir ''wav'' files,
        glob_ext vibevoice_dir ''mp3'' files,
        glob_ext vibevoice_dir ''flac'' files,
        glob_ext output_dir output_format files]"
    unfolding search_order_spec_def by (rule first_nonempty_mem)
  then show ?thesis by (auto dest: glob_ext_mem)
qed

text \<open>What the branch for a zero exit status does with the candidates it finds.\<close>

lemma collect_audio_selects_latest:
  assumes "distinct (map fst (fs w))"
  shows "find_audio_files (fs w) output_format = search_order_spec (fs w) output_format
    \<and> (find_audio_files (fs w) output_format = [] \<longrightarrow>
         fst (collect_audio res text speaker_names output_format w) =
           Inr (Failure ''No audio file generated''
                  (Some (take 500 (stdout res))) (Some (take 500 (stderr res))) False))
    \<and> (\<forall>first_file more_files. find_audio_files (fs w) output_format = first_file # more_files \<longrightarrow>
         max_by_mtime first_file more_files \<in> set (find_audio_files (fs w) output_format)
         \<and> (\<forall>c \<in> set (find_audio_files (fs w) output_format).
               mtime (snd c) \<le> mtime (snd (max_by_mtime first_file more_files)))
         \<and> (\<forall>t data. snd (max_by_mtime first_file more_files) = File t data \<longrightarrow>
               fst (collect_audio res text speaker_names output_format w) =
                 Inr (Success data output_format speaker_names (length text))))"
proof (intro conjI allI impI ballI)
  show "find_audio_files (fs w) output_format = search_order_spec (fs w) output_format"
    by (rule find_audio_files_spec)
next
  assume "find_audio_files (fs w) output_format = []"
  then show "fst (collect_audio res text speaker_names output_format w) =
           Inr (Failure ''No audio file generated''
                  (Some (take 500 (stdout res))) (Some (take 500 (stderr res))) False)"
    by (simp add: collect_audio_def)
next
  fix first_file more_files
  assume found: "find_audio_files (fs w) output_format = first_file # more_files"
  show "max_by_mtime first_file more_files \<in> set (find_audio_files (fs w) output_format)"
    using max_by_mtime_mem [of first_file more_files] found by simp
  {
    fix c
    assume "c \<in> set (find_audio_files (fs w) output_format)"
    then show "mtime (snd c) \<le> mtime (snd (max_by_mtime first_file more_files))"
      using max_by_mtime_greatest [of c first_file more_files] found by simp
  }
  {
    fix t data
    assume isfile: "snd (max_by_mtime first_file more_files) = File t data"
    have "max_by_mtime first_file more_files \<in> set (fs w)"
      using max_by_mtime_mem [of first_file more_files] found
        search_order_spec_subset [of "fs w" output_format] find_audio_files_spec [of "fs w" output_format]
      by auto
    then have "(fst (max_by_mtime first_file more_files), File t data) \<in> set (fs w)"
      using isfile by (metis prod.collapse)
    with assms have "map_of (fs w) (fst (max_by_mtime first_file more_files)) = Some (File t data)"
      by simp
    then show "fst (collect_audio res text speaker_names output_format w) =
                 Inr (Success data output_format speaker_names (length text))"
      using found by (simp add: collect_audio_def read_file_def Let_def)
  }
qed

section \<open>The log of calls along \<open>generate_audio\<close>\<close>

lemma runs_log: "runs (log e w) = (case e of RunProcess cmd \<Rightarrow> Suc (runs w) | _ \<Rightarrow> runs w)"
  by (simp add: runs_def log_def split: event.splits)

lemma runs_fs_update [simp]: "runs (w\<lparr>fs := f\<rparr>) = runs w"
  by (simp add: runs_def)

lemma runs_flag_update [simp]: "runs (w\<lparr>model_initialized := b\<rparr>) = runs w"
  by (simp add: runs_def)

lemma runs_path_update [simp]: "runs (w\<lparr>model_path := p\<rparr>) = runs w"
  by (simp add: runs_def)

lemma runs_device_update [simp]: "runs (w\<lparr>device := d\<rparr>) = runs w"
  by (simp add: runs_def)

lemma path_exists_world:
  "snd (path_exists p w) = log (PathExists p) w"
  by (simp add: path_exists_def)

lemma log_fields [simp]:
  "fs (log e w) = fs w" "model_path (log e w) = model_path w"
  "model_initialized (log e w) = model_initialized w" "device (log e w) = device w"
  by (simp_all add: log_def)

lemma first_existing_keeps:
  "first_existing scripts w = (r, w') \<Longrightarrow>
     fs w' = fs w \<and> model_path w' = model_path w \<and> runs w' = runs w"
proof (induction scripts arbitrary: w)
  case Nil
  then show ?case by simp
next
  case (Cons script scripts)
  show ?case
  proof (cases "script \<in> set (map fst (fs w))")
    case True
    with Cons.prems show ?thesis
      by (auto simp: path_exists_def runs_log)
  next
    case False
    with Cons.prems have "first_existing scripts (log (PathExists script) w) = (r, w')"
      by (simp add: path_exists_def)
    from Cons.IH [OF this] show ?thesis by (simp add: runs_log)
  qed
qed

lemma select_script_keeps:
  "select_script w = (r, w') \<Longrightarrow>
     fs w' = fs w \<and> model_path w' = model_path w \<and> runs w' = runs w"
proof (cases "demo_script \<in> set (map fst (fs w))")
  case True
  assume "select_script w = (r, w')"
  with True show ?thesis by (auto simp: select_script_def path_exists_def runs_log)
next
  case False
  assume "select_script w = (r, w')"
  with False have "first_existing possible_scripts (log (PathExists demo_script) w) = (r, w')"
    by (simp add: select_script_def path_exists_def)
  from first_existing_keeps [OF this] show ?thesis by (simp add: runs_log)
qed

lemma read_file_keeps:
  "read_file p w = (r, w') \<Longrightarrow> fs w' = fs w \<and> runs w' = runs w"
  by (auto simp: read_file_def runs_log)

lemma unlink_quiet_runs [simp]: "runs (unlink_quiet p w) = runs w"
  by (simp add: unlink_quiet_def runs_log)

lemma unlink_quiet_gone: "(p, File t c) \<notin> set (fs (unlink_quiet p w))"
  by (simp add: unlink_quiet_def)

lemma collect_audio_runs:
  "collect_audio res text speaker_names output_format w = (r, w') \<Longrightarrow> runs w' = runs w"
  by (auto simp: collect_audio_def Let_def read_file_def runs_log
      split: list.splits prod.splits sum.splits option.splits node.splits)

lemma run_process_runs:
  "run_process env cmd w = (r, w') \<Longrightarrow> runs w' = Suc (runs w)"
  by (auto simp: run_process_def Let_def runs_log split: prod.splits)

lemma run_process_result:
  "run_process env cmd w = (r, w') \<Longrightarrow> r = fst (subprocess_run env cmd 300 (fs w)) \<and> fs w' = snd (subprocess_run env cmd 300 (fs w))"
  by (auto simp: run_process_def Let_def split: prod.splits)

lemma init_attempt_runs: "init_attempt env w = (r, w') \<Longrightarrow> runs w' = runs w"
  by (auto simp: init_attempt_def path_exists_def Let_def runs_log split: sum.splits if_splits)

lemma initialize_model_runs: "initialize_model env w = (b, w') \<Longrightarrow> runs w' = runs w"
  by (auto simp: initialize_model_def init_guarded_def dest: init_attempt_runs
      split: if_splits prod.splits sum.splits)

lemma create_text_file_runs: "create_text_file env text w = (r, w') \<Longrightarrow> runs w' = runs w"
  by (auto simp: create_text_file_def Let_def runs_log split: sum.splits option.splits)

lemma create_text_file_name:
  "create_text_file env text w = (Inr p, w') \<Longrightarrow> temp_name env = Inr p"
  by (auto simp: create_text_file_def Let_def split: sum.splits option.splits)

lemma makedirs_runs: "makedirs env d w = (r, w') \<Longrightarrow> runs w' = runs w"
  by (auto simp: makedirs_def Let_def runs_log split: option.splits node.splits)

lemma run_generation_launched:
  assumes run: "run_generation env text speaker_names output_format txt_path w = (r, w')"
    and launched: "runs w \<noteq> runs w'"
  obtains script location w1 cmd where
    "select_script w = (Some script, w1)"
    "model_path w1 = Some location"
    "cmd = [''python'', script, ''--model_path'', location,
            ''--txt_path'', txt_path, ''--speaker_names''] @ speaker_names"
    "(case run_process env cmd w1 of
          (Inl e, w2) \<Rightarrow> (Inl e, w2)
        | (Inr res, w2) \<Rightarrow>
            if returncode res = 0
            then collect_audio res text speaker_names output_format w2
            else (Inr (Failure (''Generation failed: '' @ take 500 (stderr res))
                         (Some (take 500 (stdout res))) None False), w2)) = (r, w')"
proof -
  obtain found w1 where sel: "select_script w = (found, w1)"
    by (cases "select_script w")
  from select_script_keeps [OF sel] have keep: "runs w1 = runs w" by simp
  show ?thesis
  proof (cases found)
    case None
    with run sel have "w' = w1" by (simp add: run_generation_def)
    with keep launched show ?thesis by simp
  next
    case (Some script)
    show ?thesis
    proof (cases "model_path w1")
      case None
      with run sel Some have "w' = w1" by (simp add: run_generation_def)
      with keep launched show ?thesis by simp
    next
      case (Some location)
      with run sel \<open>found = Some script\<close> show ?thesis
        by (intro that [of script w1 location]) (simp_all add: run_generation_def Let_def)
    qed
  qed
qed

lemma run_generation_runs:
  assumes run: "run_generation env text speaker_names output_format txt_path w = (r, w')"
  shows "runs w' = runs w \<or> runs w' = Suc (runs w)"
proof (cases "runs w = runs w'")
  case True
  then show ?thesis by simp
next
  case False
  from run_generation_launched [OF run False]
  obtain script location w1 cmd where sel: "select_script w = (Some script, w1)"
    and eq: "(case run_process env cmd w1 of
          (Inl e, w2) \<Rightarrow> (Inl e, w2)
        | (Inr res, w2) \<Rightarrow>
            if returncode res = 0
            then collect_audio res text speaker_names output_format w2
            else (Inr (Failure (''Generation failed: '' @ take 500 (stderr res))
                         (Some (take 500 (stdout res))) None False), w2)) = (r, w')"
    by blast
  obtain r2 w2 where rp: "run_process env cmd w1 = (r2, w2)"
    by (cases "run_process env cmd w1")
  from run_process_runs [OF rp] select_script_keeps [OF sel]
  have w2: "runs w2 = Suc (runs w)" by simp
  show ?thesis
  proof (cases r2)
    case (Inl e)
    with eq rp w2 show ?thesis by simp
  next
    case (Inr res)
    show ?thesis
    proof (cases "returncode res = 0")
      case True
      with eq rp Inr have "collect_audio res text speaker_names output_format w2 = (r, w')"
        by simp
      from collect_audio_runs [OF this] w2 show ?thesis by simp
    next
      case False
      with eq rp Inr w2 show ?thesis by simp
    qed
  qed
qed

lemma generate_audio_try_launched:
  assumes gen: "generate_audio_try env job_input w = (r, w')"
    and launched: "runs w \<noteq> runs w'"
  obtains body speaker_names output_format w1 txt_path w2 u w3 w4 where
    "validate_inputs job_input = Inr (body, speaker_names, output_format)"
    "initialize_model env w = (True, w1)"
    "create_text_file env body w1 = (Inr txt_path, w2)"
    "makedirs env output_dir w2 = (Inr u, w3)"
    "run_generation env body speaker_names output_format txt_path w3 = (r, w4)"
    "w' = unlink_quiet txt_path w4"
    "runs w3 = runs w"
proof (cases "validate_inputs job_input")
  case (Inl e)
  with gen have "w' = w" by (simp add: generate_audio_try_def)
  with launched show ?thesis by simp
next
  case (Inr triple)
  obtain body speaker_names output_format where
    triple: "triple = (body, speaker_names, output_format)"
    by (cases triple)
  obtain ready w1 where init: "initialize_model env w = (ready, w1)"
    by (cases "initialize_model env w")
  from initialize_model_runs [OF init] have r1: "runs w1 = runs w" .
  show ?thesis
  proof (cases ready)
    case False
    with gen Inr triple init have "w' = w1" by (simp add: generate_audio_try_def)
    with r1 launched show ?thesis by simp
  next
    case True
    obtain made w2 where tmp: "create_text_file env body w1 = (made, w2)"
      by (cases "create_text_file env body w1")
    from create_text_file_runs [OF tmp] r1 have r2: "runs w2 = runs w" by simp
    show ?thesis
    proof (cases made)
      case (Inl e)
      with gen Inr triple init True tmp have "w' = w2"
        by (simp add: generate_audio_try_def)
      with r2 launched show ?thesis by simp
    next
      case made_ok: (Inr txt_path)
      obtain dir w3 where mk: "makedirs env output_dir w2 = (dir, w3)"
        by (cases "makedirs env output_dir w2")
      from makedirs_runs [OF mk] r2 have r3: "runs w3 = runs w" by simp
      show ?thesis
      proof (cases dir)
        case (Inl e)
        with gen Inr triple init True tmp made_ok mk have "w' = w3"
          by (simp add: generate_audio_try_def)
        with r3 launched show ?thesis by simp
      next
        case dir_ok: (Inr u)
        obtain r4 w4 where rg:
          "run_generation env body speaker_names output_format txt_path w3 = (r4, w4)"
          by (cases "run_generation env body speaker_names output_format txt_path w3")
        with gen Inr triple init True tmp made_ok mk dir_ok
        have "r = r4" "w' = unlink_quiet txt_path w4"
          by (simp_all add: generate_audio_try_def)
        with Inr triple init True tmp made_ok mk dir_ok rg r3 show ?thesis
          by (intro that [of body speaker_names output_format w1 txt_path w2 u w3 w4]) simp_all
      qed
    qed
  qed
qed

lemma generate_audio_world:
  "snd (generate_audio env job_input w) = snd (generate_audio_try env job_input w)"
  by (simp add: generate_audio_def split: prod.splits sum.splits)

lemma run_generation_outcome:
  assumes run: "run_generation env body speaker_names output_format txt_path w = (r, w')"
    and launched: "runs w \<noteq> runs w'"
  obtains cmd and w1 :: world and w2 where
    "fs w1 = fs w"
    "fs w2 = snd (subprocess_run env cmd 300 (fs w1))"
    "runs w2 = Suc (runs w)"
    "(case fst (subprocess_run env cmd 300 (fs w1)) of
        Inl e \<Rightarrow> (Inl e, w2)
      | Inr res \<Rightarrow>
          if returncode res = 0
          then collect_audio res body speaker_names output_format w2
          else (Inr (Failure (''Generation failed: '' @ take 500 (stderr res))
                       (Some (take 500 (stdout res))) None False), w2)) = (r, w')"
proof (rule run_generation_launched [OF run launched])
  fix script location w1 cmd
  assume sel: "select_script w = (Some script, w1)"
    and eq: "(case run_process env cmd w1 of
          (Inl e, w2) \<Rightarrow> (Inl e, w2)
        | (Inr res, w2) \<Rightarrow>
            if returncode res = 0
            then collect_audio res body speaker_names output_format w2
            else (Inr (Failure (''Generation failed: '' @ take 500 (stderr res))
                         (Some (take 500 (stdout res))) None False), w2)) = (r, w')"
  obtain r2 w2 where rp: "run_process env cmd w1 = (r2, w2)"
    by (cases "run_process env cmd w1")
  from select_script_keeps [OF sel] have k1: "fs w1 = fs w" "runs w1 = runs w"
    by simp_all
  from run_process_runs [OF rp] k1 have k2: "runs w2 = Suc (runs w)" by simp
  from run_process_result [OF rp]
  have out: "fst (subprocess_run env cmd 300 (fs w1)) = r2"
    and left: "fs w2 = snd (subprocess_run env cmd 300 (fs w1))" by simp_all
  have eq2: "(case fst (subprocess_run env cmd 300 (fs w1)) of
        Inl e \<Rightarrow> (Inl e, w2)
      | Inr res \<Rightarrow>
          if returncode res = 0
          then collect_audio res body speaker_names output_format w2
          else (Inr (Failure (''Generation failed: '' @ take 500 (stderr res))
                       (Some (take 500 (stdout res))) None False), w2)) = (r, w')"
    unfolding out using eq rp by (cases r2) simp_all
  show thesis by (rule that [OF k1(1) left k2 eq2])
qed

lemma generate_audio_try_outcome:
  assumes gen: "generate_audio_try env job_input w = (r, w')"
    and launched: "runs w \<noteq> runs w'"
  obtains body speaker_names output_format txt_path cmd and w1 :: world and w2 w4 where
    "validate_inputs job_input = Inr (body, speaker_names, output_format)"
    "temp_name env = Inr txt_path"
    "w' = unlink_quiet txt_path w4"
    "fs w2 = snd (subprocess_run env cmd 300 (fs w1))"
    "runs w2 = Suc (runs w)"
    "(case fst (subprocess_run env cmd 300 (fs w1)) of
        Inl e \<Rightarrow> (Inl e, w2)
      | Inr res \<Rightarrow>
          if returncode res = 0
          then collect_audio res body speaker_names output_format w2
          else (Inr (Failure (''Generation failed: '' @ take 500 (stderr res))
                       (Some (take 500 (stdout res))) None False), w2)) = (r, w4)"
proof (rule generate_audio_try_launched [OF gen launched])
  fix body speaker_names output_format wa txt_path wb and u :: unit and w3 w4
  assume v: "validate_inputs job_input = Inr (body, speaker_names, output_format)"
    and tmp: "create_text_file env body wa = (Inr txt_path, wb)"
    and rg: "run_generation env body speaker_names output_format txt_path w3 = (r, w4)"
    and w': "w' = unlink_quiet txt_path w4"
    and r3: "runs w3 = runs w"
  from w' launched r3 have ne: "runs w3 \<noteq> runs w4" by simp
  show thesis
  proof (rule run_generation_outcome [OF rg ne])
    fix cmd and w1 :: world and w2
    assume left: "fs w2 = snd (subprocess_run env cmd 300 (fs w1))"
      and k2: "runs w2 = Suc (runs w3)"
      and eq: "(case fst (subprocess_run env cmd 300 (fs w1)) of
        Inl e \<Rightarrow> (Inl e, w2)
      | Inr res \<Rightarrow>
          if returncode res = 0
          then collect_audio res body speaker_names output_format w2
          else (Inr (Failure (''Generation failed: '' @ take 500 (stderr res))
                       (Some (take 500 (stdout res))) None False), w2)) = (r, w4)"
    from k2 r3 have k: "runs w2 = Suc (runs w)" by simp
    show thesis by (rule that [OF v create_text_file_name [OF tmp] w' left k eq])
  qed
qed

lemma timed_out_job:
  "generate_audio
        (slow_surroundings 301 left_with_mp3)
        plain_job fresh_world =
      (failure ''Generation timeout (5 minutes exceeded)'',
       \<lparr>model_initialized = True, model_path = Some ''/app/models/VibeVoice-Large'',
        device = Some ''cuda'',
        fs = installed_files @
          [(''/app/VibeVoice/outputs/old.mp3'', File 3 ''ID3-old''),
           (''/app/VibeVoice/outputs/new.mp3'', File 7 ''ID3-new''),
           (''/tmp/vibevoice_output/stale.wav'', File 2 ''RIFF'')],
        trace = [CudaQuery, PathExists ''/app/models/VibeVoice-Large'',
          PathExists ''/app/models/VibeVoice-Large/config.json'', MakeTemp,
          MakeDirs ''/tmp/vibevoice_output'',
          PathExists ''/app/VibeVoice/demo/inference_from_file.py'',
          RunProcess [''python'', ''/app/VibeVoice/demo/inference_from_file.py'',
            ''--model_path'', ''/app/models/VibeVoice-Large'', ''--txt_path'',
            ''/tmp/tmpk3v9xq2a.txt'', ''--speaker_names'', ''Alice'', ''Bob''],
          Unlink ''/tmp/tmpk3v9xq2a.txt'']\<rparr>)"
  by (simp add: gen_defs os_defs example_defs slow_surroundings_def left_with_mp3_def
      lower_wav)

section \<open>The deadline of the child process\<close>

text \<open>
  Claim C4. \<open>subprocess.run\<close> is given the deadline of 300 seconds; at the deadline
  it kills the child and raises \<open>TimeoutExpired\<close>, which is the outcome assumed here
  of every start of the child. Then a job that starts the child returns the failure
  "Generation timeout (5 minutes exceeded)", has started it exactly once, and leaves no
  file under the name of its temporary text file.
\<close>

theorem C4_timeout_reported_and_text_file_removed:
  assumes deadline: "\<forall>cmd found. \<exists>m left.
      subprocess_run env cmd 300 found = (Inl (Exn TimeoutExpired m), left)"
    and launched: "runs w < runs (snd (generate_audio env job_input w))"
  shows "fst (generate_audio env job_input w) =
           failure ''Generation timeout (5 minutes exceeded)''
    \<and> runs (snd (generate_audio env job_input w)) = Suc (runs w)
    \<and> (\<exists>txt_path. temp_name env = Inr txt_path
          \<and> (\<forall>t c. (txt_path, File t c) \<notin> set (fs (snd (generate_audio env job_input w)))))"
proof -
  obtain r w' where gen: "generate_audio_try env job_input w = (r, w')"
    by (cases "generate_audio_try env job_input w")
  from gen have world: "snd (generate_audio env job_input w) = w'"
    by (simp add: generate_audio_world)
  with launched have ne: "runs w \<noteq> runs w'" by simp
  show ?thesis
  proof (rule generate_audio_try_outcome [OF gen ne])
    fix body speaker_names output_format txt_path cmd and w1 :: world and w2 w4
    assume name: "temp_name env = Inr txt_path"
      and w': "w' = unlink_quiet txt_path w4"
      and k2: "runs w2 = Suc (runs w)"
      and eq: "(case fst (subprocess_run env cmd 300 (fs w1)) of
        Inl e \<Rightarrow> (Inl e, w2)
      | Inr res \<Rightarrow>
          if returncode res = 0
          then collect_audio res body speaker_names output_format w2
          else (Inr (Failure (''Generation failed: '' @ take 500 (stderr res))
                       (Some (take 500 (stdout res))) None False), w2)) = (r, w4)"
    from deadline obtain m left where
      "subprocess_run env cmd 300 (fs w1) = (Inl (Exn TimeoutExpired m), left)"
      by blast
    with eq have r: "r = Inl (Exn TimeoutExpired m)" and w4: "w4 = w2" by simp_all
    from gen r have res: "fst (generate_audio env job_input w) =
        failure ''Generation timeout (5 minutes exceeded)''"
      by (simp add: generate_audio_def)
    from w' w4 k2 have once: "runs w' = Suc (runs w)" by simp
    from w' have gone: "\<forall>t c. (txt_path, File t c) \<notin> set (fs w')"
      by (simp add: unlink_quiet_gone)
    from res once gone name show ?thesis unfolding world by blast
  qed
qed

theorem C4_timeout_reported_and_text_file_removed_witness:
  "fst (subprocess_run
          (slow_surroundings 301 left_with_mp3)
          [] 300 []) = Inl (Exn TimeoutExpired ''timed out'')
   \<and> (temp_txt, File 5 ''Speaker 1: Hi. Speaker 2: Hello.'') \<in> set left_with_mp3
   \<and> runs fresh_world = 0
   \<and> fst (generate_audio
        (slow_surroundings 301 left_with_mp3)
        plain_job fresh_world) = failure ''Generation timeout (5 minutes exceeded)''
   \<and> runs (snd (generate_audio
        (slow_surroundings 301 left_with_mp3)
        plain_job fresh_world)) = 1
   \<and> temp_txt \<notin> set (map fst (fs (snd (generate_audio
        (slow_surroundings 301 left_with_mp3)
        plain_job fresh_world))))"
proof -
  let ?env = "slow_surroundings 301 left_with_mp3"
  have deadline: "\<forall>cmd found. \<exists>m left.
      subprocess_run ?env cmd 300 found = (Inl (Exn TimeoutExpired m), left)"
    by (simp add: slow_surroundings_def)
  have zero: "runs fresh_world = 0" by (simp add: runs_def fresh_world_def)
  have launched: "runs fresh_world < runs (snd (generate_audio ?env plain_job fresh_world))"
    unfolding timed_out_job by (simp add: runs_def fresh_world_def)
  have mem: "(temp_txt, File 5 ''Speaker 1: Hi. Speaker 2: Hello.'') \<in> set left_with_mp3"
    by (simp add: left_with_mp3_def)
  have gone: "temp_txt \<notin> set (map fst (fs (snd (generate_audio ?env plain_job fresh_world))))"
    unfolding timed_out_job by (simp add: temp_txt_def installed_files_def)
  have run: "fst (subprocess_run ?env [] 300 []) =
      Inl (Exn TimeoutExpired ''timed out'')"
    by (simp add: slow_surroundings_def)
  from C4_timeout_reported_and_text_file_removed [OF deadline launched] zero mem gone run
  show ?thesis by simp
qed

section \<open>The artifact returned after a zero exit status\<close>

lemma trace_unlink_quiet: "trace (unlink_quiet p w) = trace w @ [Unlink p]"
  by (simp add: unlink_quiet_def log_def)

lemma collect_audio_reads:
  assumes "collect_audio res body speaker_names output_format w = (r, w')"
    and "find_audio_files (fs w) output_format = first_file # more_files"
  shows "ReadFile (fst (max_by_mtime first_file more_files)) \<in> set (trace w')"
  using assms
  by (auto simp: collect_audio_def Let_def read_file_def log_def unlink_quiet_def
      split: prod.splits sum.splits)

lemma generate_audio_result:
  "generate_audio_try env job_input w = (Inr x, w') \<Longrightarrow>
     fst (generate_audio env job_input w) = x"
  by (simp add: generate_audio_def)

lemma search_left_with_mp3:
  "search_order_spec left_with_mp3 ''wav'' =
       [(''/app/VibeVoice/outputs/old.mp3'', File 3 ''ID3-old''),
        (''/app/VibeVoice/outputs/new.mp3'', File 7 ''ID3-new'')]"
  by (simp add: search_order_spec_def left_with_mp3_def example_defs glob_ext_def
      startswith_def endswith_def)

lemma successful_job:
  "generate_audio (surroundings (Inr (Completed 0 [] [])) left_with_mp3) plain_job fresh_world =
      (Success ''ID3-new'' ''wav'' [''Alice'', ''Bob''] 32,
       \<lparr>model_initialized = True, model_path = Some ''/app/models/VibeVoice-Large'',
        device = Some ''cuda'',
        fs = installed_files @
          [(''/app/VibeVoice/outputs/old.mp3'', File 3 ''ID3-old''),
           (''/tmp/vibevoice_output/stale.wav'', File 2 ''RIFF'')],
        trace = [CudaQuery, PathExists ''/app/models/VibeVoice-Large'',
          PathExists ''/app/models/VibeVoice-Large/config.json'', MakeTemp,
          MakeDirs ''/tmp/vibevoice_output'',
          PathExists ''/app/VibeVoice/demo/inference_from_file.py'',
          RunProcess [''python'', ''/app/VibeVoice/demo/inference_from_file.py'',
            ''--model_path'', ''/app/models/VibeVoice-Large'', ''--txt_path'',
            ''/tmp/tmpk3v9xq2a.txt'', ''--speaker_names'', ''Alice'', ''Bob''],
          ReadFile ''/app/VibeVoice/outputs/new.mp3'',
          Unlink ''/app/VibeVoice/outputs/new.mp3'',
          Unlink ''/tmp/tmpk3v9xq2a.txt'']\<rparr>)"
  by (simp add: gen_defs os_defs example_defs left_with_mp3_def lower_wav)

text \<open>
  Claim C6. Let every start of the child complete with the result \<open>res\<close> of exit
  status zero and leave the file system \<open>left\<close>, and let the job start the child.
  Then the candidates \<open>generate_audio\<close> finds are those of the first place, in the
  order of the specification, that yields a file: the backend's tree for the requested
  format, the tree for wav, mp3 and flac in turn, and the output directory. With no
  candidate the job fails with the message that no audio file was generated.
  Otherwise the file selected is a candidate whose modification time no other
  candidate exceeds; it is the file the job reads, and when it is a regular file its
  bytes are the audio of the success returned.
\<close>

theorem C6_zero_exit_artifact_search:
  assumes child: "\<forall>cmd found. subprocess_run env cmd 300 found = (Inr res, left)"
    and zero: "returncode res = 0"
    and launched: "runs w < runs (snd (generate_audio env job_input w))"
    and paths: "distinct (map fst left)"
  shows "\<exists>body speaker_names output_format.
      validate_inputs job_input = Inr (body, speaker_names, output_format)
    \<and> find_audio_files left output_format = search_order_spec left output_format
    \<and> (search_order_spec left output_format = [] \<longrightarrow>
         fst (generate_audio env job_input w) =
           Failure ''No audio file generated''
             (Some (take 500 (stdout res))) (Some (take 500 (stderr res))) False)
    \<and> (\<forall>first_file more_files.
         search_order_spec left output_format = first_file # more_files \<longrightarrow>
           max_by_mtime first_file more_files \<in> set (search_order_spec left output_format)
         \<and> (\<forall>c \<in> set (search_order_spec left output_format).
               mtime (snd c) \<le> mtime (snd (max_by_mtime first_file more_files)))
         \<and> ReadFile (fst (max_by_mtime first_file more_files))
               \<in> set (trace (snd (generate_audio env job_input w)))
         \<and> (\<forall>t data. snd (max_by_mtime first_file more_files) = File t data \<longrightarrow>
               fst (generate_audio env job_input w) =
                 Success data output_format speaker_names (length body)))"
proof -
  obtain r w' where gen: "generate_audio_try env job_input w = (r, w')"
    by (cases "generate_audio_try env job_input w")
  from gen have world: "snd (generate_audio env job_input w) = w'"
    by (simp add: generate_audio_world)
  with launched have ne: "runs w \<noteq> runs w'" by simp
  show ?thesis
  proof (rule generate_audio_try_outcome [OF gen ne])
    fix body speaker_names output_format txt_path cmd and w1 :: world and w2 w4
    assume v: "validate_inputs job_input = Inr (body, speaker_names, output_format)"
      and w': "w' = unlink_quiet txt_path w4"
      and left: "fs w2 = snd (subprocess_run env cmd 300 (fs w1))"
      and eq: "(case fst (subprocess_run env cmd 300 (fs w1)) of
        Inl e \<Rightarrow> (Inl e, w2)
      | Inr res \<Rightarrow>
          if returncode res = 0
          then collect_audio res body speaker_names output_format w2
          else (Inr (Failure (''Generation failed: '' @ take 500 (stderr res))
                       (Some (take 500 (stdout res))) None False), w2)) = (r, w4)"
    from child have run: "subprocess_run env cmd 300 (fs w1) = (Inr res, left)" by blast
    with left have fs2: "fs w2 = left" by simp
    from eq run zero
    have col: "collect_audio res body speaker_names output_format w2 = (r, w4)" by simp
    from paths fs2 have d: "distinct (map fst (fs w2))" by simp
    note sel = collect_audio_selects_latest
      [OF d, of output_format res body speaker_names, unfolded fs2]
    from sel have same: "find_audio_files left output_format =
        search_order_spec left output_format" by blast
    have none: "search_order_spec left output_format = [] \<longrightarrow>
         fst (generate_audio env job_input w) =
           Failure ''No audio file generated''
             (Some (take 500 (stdout res))) (Some (take 500 (stderr res))) False"
    proof
      assume "search_order_spec left output_format = []"
      with sel same col have "r = Inr (Failure ''No audio file generated''
             (Some (take 500 (stdout res))) (Some (take 500 (stderr res))) False)"
        by simp
      with gen show "fst (generate_audio env job_input w) =
           Failure ''No audio file generated''
             (Some (take 500 (stdout res))) (Some (take 500 (stderr res))) False"
        by (simp add: generate_audio_result)
    qed
    have some: "\<forall>first_file more_files.
         search_order_spec left output_format = first_file # more_files \<longrightarrow>
           max_by_mtime first_file more_files \<in> set (search_order_spec left output_format)
         \<and> (\<forall>c \<in> set (search_order_spec left output_format).
               mtime (snd c) \<le> mtime (snd (max_by_mtime first_file more_files)))
         \<and> ReadFile (fst (max_by_mtime first_file more_files))
               \<in> set (trace (snd (generate_audio env job_input w)))
         \<and> (\<forall>t data. snd (max_by_mtime first_file more_files) = File t data \<longrightarrow>
               fst (generate_audio env job_input w) =
                 Success data output_format speaker_names (length body))"
    proof (intro allI impI)
      fix first_file more_files
      assume cands: "search_order_spec left output_format = first_file # more_files"
      with same have found: "find_audio_files left output_format = first_file # more_files"
        by simp
      from sel found
      have "max_by_mtime first_file more_files \<in> set (find_audio_files left output_format)
         \<and> (\<forall>c \<in> set (find_audio_files left output_format).
               mtime (snd c) \<le> mtime (snd (max_by_mtime first_file more_files)))
         \<and> (\<forall>t data. snd (max_by_mtime first_file more_files) = File t data \<longrightarrow>
               fst (collect_audio res body speaker_names output_format w2) =
                 Inr (Success data output_format speaker_names (length body)))"
        by blast
      then have mem: "max_by_mtime first_file more_files \<in> set (search_order_spec left output_format)"
        and top: "\<forall>c \<in> set (search_order_spec left output_format).
               mtime (snd c) \<le> mtime (snd (max_by_mtime first_file more_files))"
        and bytes: "\<forall>t data. snd (max_by_mtime first_file more_files) = File t data \<longrightarrow>
               fst (collect_audio res body speaker_names output_format w2) =
                 Inr (Success data output_format speaker_names (length body))"
        unfolding same by blast+
      from found fs2 have "find_audio_files (fs w2) output_format = first_file # more_files"
        by simp
      from collect_audio_reads [OF col this] w'
      have rd: "ReadFile (fst (max_by_mtime first_file more_files))
               \<in> set (trace (snd (generate_audio env job_input w)))"
        unfolding world by (simp add: trace_unlink_quiet)
      have ret: "\<forall>t data. snd (max_by_mtime first_file more_files) = File t data \<longrightarrow>
               fst (generate_audio env job_input w) =
                 Success data output_format speaker_names (length body)"
      proof (intro allI impI)
        fix t data
        assume "snd (max_by_mtime first_file more_files) = File t data"
        with bytes col have "r = Inr (Success data output_format speaker_names (length body))"
          by simp
        with gen show "fst (generate_audio env job_input w) =
                 Success data output_format speaker_names (length body)"
          by (simp add: generate_audio_result)
      qed
      from mem top rd ret
      show "max_by_mtime first_file more_files \<in> set (search_order_spec left output_format)
         \<and> (\<forall>c \<in> set (search_order_spec left output_format).
               mtime (snd c) \<le> mtime (snd (max_by_mtime first_file more_files)))
         \<and> ReadFile (fst (max_by_mtime first_file more_files))
               \<in> set (trace (snd (generate_audio env job_input w)))
         \<and> (\<forall>t data. snd (max_by_mtime first_file more_files) = File t data \<longrightarrow>
               fst (generate_audio env job_input w) =
                 Success data output_format speaker_names (length body))"
        by blast
    qed
    from v same none some show ?thesis by blast
  qed
qed

theorem C6_zero_exit_artifact_search_witness:
  "returncode (Completed 0 [] []) = 0
   \<and> distinct (map fst left_with_mp3)
   \<and> runs fresh_world
       < runs (snd (generate_audio (surroundings (Inr (Completed 0 [] [])) left_with_mp3)
                 plain_job fresh_world))
   \<and> search_order_spec left_with_mp3 ''wav'' =
       [(''/app/VibeVoice/outputs/old.mp3'', File 3 ''ID3-old''),
        (''/app/VibeVoice/outputs/new.mp3'', File 7 ''ID3-new'')]
   \<and> ReadFile ''/app/VibeVoice/outputs/new.mp3''
       \<in> set (trace (snd (generate_audio (surroundings (Inr (Completed 0 [] [])) left_with_mp3)
                 plain_job fresh_world)))
   \<and> fst (generate_audio (surroundings (Inr (Completed 0 [] [])) left_with_mp3)
          plain_job fresh_world) = Success ''ID3-new'' ''wav'' [''Alice'', ''Bob''] 32"
proof -
  let ?env = "surroundings (Inr (Completed 0 [] [])) left_with_mp3"
  have child: "\<forall>cmd found. subprocess_run ?env cmd 300 found = (Inr (Completed 0 [] []), left_with_mp3)"
    by (simp add: surroundings_def)
  have zero: "returncode (Completed 0 [] []) = 0" by simp
  have launched: "runs fresh_world < runs (snd (generate_audio ?env plain_job fresh_world))"
    unfolding successful_job by (simp add: runs_def fresh_world_def)
  have paths: "distinct (map fst left_with_mp3)"
    by (simp add: left_with_mp3_def example_defs)
  have latest: "max_by_mtime (''/app/VibeVoice/outputs/old.mp3'', File 3 ''ID3-old'')
       [(''/app/VibeVoice/outputs/new.mp3'', File 7 ''ID3-new'')] =
       (''/app/VibeVoice/outputs/new.mp3'', File 7 ''ID3-new'')"
    by simp
  from C6_zero_exit_artifact_search [OF child zero launched paths]
  obtain body speaker_names output_format where
    v: "validate_inputs plain_job = Inr (body, speaker_names, output_format)"
    and sel: "\<forall>first_file more_files.
         search_order_spec left_with_mp3 output_format = first_file # more_files \<longrightarrow>
           ReadFile (fst (max_by_mtime first_file more_files))
               \<in> set (trace (snd (generate_audio ?env plain_job fresh_world)))
         \<and> (\<forall>t data. snd (max_by_mtime first_file more_files) = File t data \<longrightarrow>
               fst (generate_audio ?env plain_job fresh_world) =
                 Success data output_format speaker_names (length body))"
    by blast
  from v validate_plain_job
  have eqs: "body = ''Speaker 1: Hi. Speaker 2: Hello.''" "speaker_names = [''Alice'', ''Bob'']"
    "output_format = ''wav''"
    by simp_all
  from sel [unfolded eqs, rule_format, OF search_left_with_mp3]
  have "ReadFile ''/app/VibeVoice/outputs/new.mp3''
       \<in> set (trace (snd (generate_audio ?env plain_job fresh_world)))"
    and "fst (generate_audio ?env plain_job fresh_world) =
       Success ''ID3-new'' ''wav'' [''Alice'', ''Bob''] 32"
    unfolding latest by simp_all
  with zero paths launched search_left_with_mp3 show ?thesis by blast
qed

section \<open>The excerpts of a failed generation\<close>

lemma failed_child_job:
  "generate_audio (surroundings (Inr (Completed 1 ''boom'' [])) installed_files)
     plain_job fresh_world =
     (Failure ''Generation failed: '' (Some ''boom'') None False,
       \<lparr>model_initialized = True, model_path = Some ''/app/models/VibeVoice-Large'',
        device = Some ''cuda'', fs = installed_files,
        trace = [CudaQuery, PathExists ''/app/models/VibeVoice-Large'',
          PathExists ''/app/models/VibeVoice-Large/config.json'', MakeTemp,
          MakeDirs ''/tmp/vibevoice_output'',
          PathExists ''/app/VibeVoice/demo/inference_from_file.py'',
          RunProcess [''python'', ''/app/VibeVoice/demo/inference_from_file.py'',
            ''--model_path'', ''/app/models/VibeVoice-Large'', ''--txt_path'',
            ''/tmp/tmpk3v9xq2a.txt'', ''--speaker_names'', ''Alice'', ''Bob''],
          Unlink ''/tmp/tmpk3v9xq2a.txt'']\<rparr>)"
  by (simp add: gen_defs os_defs example_defs lower_wav)

lemma no_artifact_job:
  "generate_audio (surroundings (Inr (Completed 0 ''done'' ''warning'')) installed_files)
     plain_job fresh_world =
     (Failure ''No audio file generated'' (Some ''done'') (Some ''warning'') False,
       \<lparr>model_initialized = True, model_path = Some ''/app/models/VibeVoice-Large'',
        device = Some ''cuda'', fs = installed_files,
        trace = [CudaQuery, PathExists ''/app/models/VibeVoice-Large'',
          PathExists ''/app/models/VibeVoice-Large/config.json'', MakeTemp,
          MakeDirs ''/tmp/vibevoice_output'',
          PathExists ''/app/VibeVoice/demo/inference_from_file.py'',
          RunProcess [''python'', ''/app/VibeVoice/demo/inference_from_file.py'',
            ''--model_path'', ''/app/models/VibeVoice-Large'', ''--txt_path'',
            ''/tmp/tmpk3v9xq2a.txt'', ''--speaker_names'', ''Alice'', ''Bob''],
          Unlink ''/tmp/tmpk3v9xq2a.txt'']\<rparr>)"
  by (simp add: gen_defs os_defs example_defs lower_wav)

text \<open>
  Claim C7, as the code has it. Let every start of the child complete with the result
  \<open>res\<close> and leave the file system \<open>left\<close>, and let the job start the child. On
  an exit status other than zero the failure carries the first 500 characters of the
  child's standard error inside its message, after "Generation failed: ", and the
  first 500 characters of its standard output as the \<open>stdout\<close> entry. On exit
  status zero with no artifact found it carries the first 500 characters of each
  stream as the \<open>stdout\<close> and \<open>stderr\<close> entries. An excerpt is never longer than
  500 characters; it is the whole stream when the stream is no longer than that.
\<close>

theorem C7_failure_excerpts_first_500:
  assumes child: "\<forall>cmd found. subprocess_run env cmd 300 found = (Inr res, left)"
    and launched: "runs w < runs (snd (generate_audio env job_input w))"
  shows "(returncode res \<noteq> 0 \<longrightarrow>
           fst (generate_audio env job_input w) =
             Failure (''Generation failed: '' @ take 500 (stderr res))
               (Some (take 500 (stdout res))) None False)
    \<and> (returncode res = 0
         \<and> (\<exists>body speaker_names output_format.
               validate_inputs job_input = Inr (body, speaker_names, output_format)
               \<and> find_audio_files left output_format = []) \<longrightarrow>
           fst (generate_audio env job_input w) =
             Failure ''No audio file generated''
               (Some (take 500 (stdout res))) (Some (take 500 (stderr res))) False)
    \<and> length (take 500 (stdout res)) \<le> 500 \<and> length (take 500 (stderr res)) \<le> 500"
proof -
  obtain r w' where gen: "generate_audio_try env job_input w = (r, w')"
    by (cases "generate_audio_try env job_input w")
  from gen have world: "snd (generate_audio env job_input w) = w'"
    by (simp add: generate_audio_world)
  with launched have ne: "runs w \<noteq> runs w'" by simp
  have main: "(returncode res \<noteq> 0 \<longrightarrow>
           fst (generate_audio env job_input w) =
             Failure (''Generation failed: '' @ take 500 (stderr res))
               (Some (take 500 (stdout res))) None False)
    \<and> (returncode res = 0
         \<and> (\<exists>body speaker_names output_format.
               validate_inputs job_input = Inr (body, speaker_names, output_format)
               \<and> find_audio_files left output_format = []) \<longrightarrow>
           fst (generate_audio env job_input w) =
             Failure ''No audio file generated''
               (Some (take 500 (stdout res))) (Some (take 500 (stderr res))) False)"
  proof (rule generate_audio_try_outcome [OF gen ne])
    fix body speaker_names output_format txt_path cmd and w1 :: world and w2 w4
    assume v: "validate_inputs job_input = Inr (body, speaker_names, output_format)"
      and left: "fs w2 = snd (subprocess_run env cmd 300 (fs w1))"
      and eq: "(case fst (subprocess_run env cmd 300 (fs w1)) of
        Inl e \<Rightarrow> (Inl e, w2)
      | Inr res \<Rightarrow>
          if returncode res = 0
          then collect_audio res body speaker_names output_format w2
          else (Inr (Failure (''Generation failed: '' @ take 500 (stderr res))
                       (Some (take 500 (stdout res))) None False), w2)) = (r, w4)"
    from child have run: "subprocess_run env cmd 300 (fs w1) = (Inr res, left)" by blast
    with left have fs2: "fs w2 = left" by simp
    have nonzero: "returncode res \<noteq> 0 \<longrightarrow>
           fst (generate_audio env job_input w) =
             Failure (''Generation failed: '' @ take 500 (stderr res))
               (Some (take 500 (stdout res))) None False"
    proof
      assume "returncode res \<noteq> 0"
      with eq run have "r = Inr (Failure (''Generation failed: '' @ take 500 (stderr res))
               (Some (take 500 (stdout res))) None False)" by simp
      with gen show "fst (generate_audio env job_input w) =
             Failure (''Generation failed: '' @ take 500 (stderr res))
               (Some (take 500 (stdout res))) None False"
        by (simp add: generate_audio_result)
    qed
    have missing: "returncode res = 0
         \<and> (\<exists>body speaker_names output_format.
               validate_inputs job_input = Inr (body, speaker_names, output_format)
               \<and> find_audio_files left output_format = []) \<longrightarrow>
           fst (generate_audio env job_input w) =
             Failure ''No audio file generated''
               (Some (take 500 (stdout res))) (Some (take 500 (stderr res))) False"
    proof
      assume h: "returncode res = 0
         \<and> (\<exists>body speaker_names output_format.
               validate_inputs job_input = Inr (body, speaker_names, output_format)
               \<and> find_audio_files left output_format = [])"
      with v have none: "find_audio_files left output_format = []" by auto
      from h eq run
      have "collect_audio res body speaker_names output_format w2 = (r, w4)" by simp
      with none fs2 have "r = Inr (Failure ''No audio file generated''
               (Some (take 500 (stdout res))) (Some (take 500 (stderr res))) False)"
        by (simp add: collect_audio_def)
      with gen show "fst (generate_audio env job_input w) =
             Failure ''No audio file generated''
               (Some (take 500 (stdout res))) (Some (take 500 (stderr res))) False"
        by (simp add: generate_audio_result)
    qed
    from nonzero missing show ?thesis by blast
  qed
  then show ?thesis by simp
qed

theorem C7_failure_excerpts_first_500_witness:
  "returncode (Completed 1 (replicate 700 CHR ''o'') (replicate 600 CHR ''e'')) \<noteq> 0
   \<and> fst (generate_audio
        (surroundings (Inr (Completed 1 (replicate 700 CHR ''o'') (replicate 600 CHR ''e'')))
           installed_files) plain_job fresh_world) =
       Failure (''Generation failed: '' @ replicate 500 CHR ''e'')
         (Some (replicate 500 CHR ''o'')) None False
   \<and> returncode (Completed 0 ''done'' ''warning'') = 0
   \<and> find_audio_files installed_files ''wav'' = []
   \<and> fst (generate_audio (surroundings (Inr (Completed 0 ''done'' ''warning'')) installed_files)
          plain_job fresh_world) =
       Failure ''No audio file generated'' (Some ''done'') (Some ''warning'') False"
proof -
  let ?long = "Completed 1 (replicate 700 CHR ''o'') (replicate 600 CHR ''e'')"
  let ?env1 = "surroundings (Inr ?long) installed_files"
  let ?env0 = "surroundings (Inr (Completed 0 ''done'' ''warning'')) installed_files"
  have child1: "\<forall>cmd found. subprocess_run ?env1 cmd 300 found = (Inr ?long, installed_files)"
    by (simp add: surroundings_def)
  have child0: "\<forall>cmd found. subprocess_run ?env0 cmd 300 found =
      (Inr (Completed 0 ''done'' ''warning''), installed_files)"
    by (simp add: surroundings_def)
  have launched1: "runs fresh_world < runs (snd (generate_audio ?env1 plain_job fresh_world))"
    by (simp add: gen_defs os_defs example_defs lower_wav runs_def)
  have launched0: "runs fresh_world < runs (snd (generate_audio ?env0 plain_job fresh_world))"
    unfolding no_artifact_job by (simp add: runs_def fresh_world_def)
  have none: "find_audio_files installed_files ''wav'' = []"
    by (simp add: find_audio_files_def example_defs glob_ext_def startswith_def endswith_def)
  from C7_failure_excerpts_first_500 [OF child1 launched1]
  have one: "fst (generate_audio ?env1 plain_job fresh_world) =
       Failure (''Generation failed: '' @ replicate 500 CHR ''e'')
         (Some (replicate 500 CHR ''o'')) None False"
    by simp
  from C7_failure_excerpts_first_500 [OF child0 launched0] validate_plain_job none
  have two: "fst (generate_audio ?env0 plain_job fresh_world) =
       Failure ''No audio file generated'' (Some ''done'') (Some ''warning'') False"
    by simp
  from one two none show ?thesis by simp
qed

text \<open>
  Claim C7 as stated fails. A child that exits with status 1 after writing "boom" to
  its standard output and nothing to its standard error yields a failure whose excerpt
  of the standard error is empty, and whose excerpt of the standard output is the full
  stream.
\<close>

theorem C7_failure_excerpts_counterexample:
  "returncode (Completed 1 ''boom'' []) \<noteq> 0
   \<and> runs fresh_world
       < runs (snd (generate_audio (surroundings (Inr (Completed 1 ''boom'' [])) installed_files)
                 plain_job fresh_world))
   \<and> fst (generate_audio (surroundings (Inr (Completed 1 ''boom'' [])) installed_files)
          plain_job fresh_world) = Failure ''Generation failed: '' (Some ''boom'') None False
   \<and> take 500 (stderr (Completed 1 ''boom'' [])) = []
   \<and> take 500 (stdout (Completed 1 ''boom'' [])) = stdout (Completed 1 ''boom'' [])"
  unfolding failed_child_job by (simp add: runs_def fresh_world_def)

section \<open>What \<open>generate_audio\<close> returns\<close>

lemma collect_audio_success:
  "collect_audio res body speaker_names output_format w = (Inr (Success d f s n), w') \<Longrightarrow>
     f = output_format \<and> s = speaker_names \<and> n = length body"
  by (auto simp: collect_audio_def Let_def split: list.splits prod.splits sum.splits)

lemma collect_audio_message:
  "collect_audio res body speaker_names output_format w = (Inr x, w') \<Longrightarrow> carries_message x"
  by (auto simp: collect_audio_def Let_def split: list.splits prod.splits sum.splits)

lemma run_generation_success:
  assumes "run_generation env body speaker_names output_format txt_path w =
      (Inr (Success d f s n), w')"
  shows "f = output_format \<and> s = speaker_names \<and> n = length body"
proof -
  obtain found w1 where sel: "select_script w = (found, w1)"
    by (cases "select_script w")
  show ?thesis
  proof (cases found)
    case None
    with assms sel show ?thesis by (simp add: run_generation_def failure_def)
  next
    case (Some script)
    show ?thesis
    proof (cases "model_path w1")
      case None
      with assms sel Some show ?thesis by (simp add: run_generation_def)
    next
      case (Some location)
      obtain r2 w2 where rp: "run_process env
          ([''python'', script, ''--model_path'', location,
            ''--txt_path'', txt_path, ''--speaker_names''] @ speaker_names) w1 = (r2, w2)"
        by (cases "run_process env
          ([''python'', script, ''--model_path'', location,
            ''--txt_path'', txt_path, ''--speaker_names''] @ speaker_names) w1")
      show ?thesis
      proof (cases r2)
        case (Inl e)
        with assms sel \<open>found = Some script\<close> Some rp show ?thesis
          by (simp add: run_generation_def Let_def)
      next
        case (Inr res)
        with assms sel \<open>found = Some script\<close> Some rp
        have "returncode res = 0
          \<and> collect_audio res body speaker_names output_format w2 = (Inr (Success d f s n), w')"
          by (simp add: run_generation_def Let_def split: if_splits)
        then show ?thesis by (auto dest: collect_audio_success)
      qed
    qed
  qed
qed

lemma run_generation_message:
  assumes "run_generation env body speaker_names output_format txt_path w = (Inr x, w')"
  shows "carries_message x"
proof -
  obtain found w1 where sel: "select_script w = (found, w1)"
    by (cases "select_script w")
  show ?thesis
  proof (cases found)
    case None
    with assms sel show ?thesis by (auto simp: run_generation_def failure_def)
  next
    case (Some script)
    show ?thesis
    proof (cases "model_path w1")
      case None
      with assms sel Some show ?thesis by (simp add: run_generation_def)
    next
      case (Some location)
      obtain r2 w2 where rp: "run_process env
          ([''python'', script, ''--model_path'', location,
            ''--txt_path'', txt_path, ''--speaker_names''] @ speaker_names) w1 = (r2, w2)"
        by (cases "run_process env
          ([''python'', script, ''--model_path'', location,
            ''--txt_path'', txt_path, ''--speaker_names''] @ speaker_names) w1")
      show ?thesis
      proof (cases r2)
        case (Inl e)
        with assms sel \<open>found = Some script\<close> Some rp show ?thesis
          by (simp add: run_generation_def Let_def)
      next
        case (Inr res)
        show ?thesis
        proof (cases "returncode res = 0")
          case True
          with assms sel \<open>found = Some script\<close> Some rp Inr
          have "collect_audio res body speaker_names output_format w2 = (Inr x, w')"
            by (simp add: run_generation_def Let_def)
          then show ?thesis by (rule collect_audio_message)
        next
          case False
          with assms sel \<open>found = Some script\<close> Some rp Inr show ?thesis
            by (auto simp: run_generation_def Let_def)
        qed
      qed
    qed
  qed
qed

text \<open>What the outer block returns without an exception comes from the failed
  initialisation or from the inner block.\<close>

lemma generate_audio_try_returns:
  assumes "generate_audio_try env job_input w = (Inr x, w')"
  shows "x = failure ''Model initialization failed''
    \<or> (\<exists>body speaker_names output_format txt_path w3 w4.
          validate_inputs job_input = Inr (body, speaker_names, output_format)
          \<and> run_generation env body speaker_names output_format txt_path w3 = (Inr x, w4))"
proof (cases "validate_inputs job_input")
  case (Inl e)
  with assms show ?thesis by (simp add: generate_audio_try_def)
next
  case (Inr triple)
  obtain body speaker_names output_format where
    triple: "triple = (body, speaker_names, output_format)"
    by (cases triple)
  obtain ready w1 where init: "initialize_model env w = (ready, w1)"
    by (cases "initialize_model env w")
  show ?thesis
  proof (cases ready)
    case False
    with assms Inr triple init show ?thesis by (simp add: generate_audio_try_def)
  next
    case True
    obtain made w2 where tmp: "create_text_file env body w1 = (made, w2)"
      by (cases "create_text_file env body w1")
    show ?thesis
    proof (cases made)
      case (Inl e)
      with assms Inr triple init True tmp show ?thesis
        by (simp add: generate_audio_try_def)
    next
      case made_ok: (Inr txt_path)
      obtain dir w3 where mk: "makedirs env output_dir w2 = (dir, w3)"
        by (cases "makedirs env output_dir w2")
      show ?thesis
      proof (cases dir)
        case (Inl e)
        with assms Inr triple init True tmp made_ok mk show ?thesis
          by (simp add: generate_audio_try_def)
      next
        case dir_ok: (Inr u)
        obtain r4 w4 where rg:
          "run_generation env body speaker_names output_format txt_path w3 = (r4, w4)"
          by (cases "run_generation env body speaker_names output_format txt_path w3")
        with assms Inr triple init True tmp made_ok mk dir_ok
        have "r4 = Inr x" by (simp add: generate_audio_try_def)
        with rg Inr triple show ?thesis by blast
      qed
    qed
  qed
qed

lemma validate_inputs_format:
  "validate_inputs job_input = Inr (body, speaker_names, output_format) \<Longrightarrow>
     \<exists>raw. py_get job_input ''output_format'' (PStr ''wav'') = Inr raw
       \<and> validate_output_format raw = Inr output_format"
  by (auto simp: validate_inputs_def split: sum.splits)

lemma generate_audio_success:
  assumes "fst (generate_audio env job_input w) = Success d f s n"
  shows "\<exists>w'. generate_audio_try env job_input w = (Inr (Success d f s n), w')"
proof -
  obtain r w' where gen: "generate_audio_try env job_input w = (r, w')"
    by (cases "generate_audio_try env job_input w")
  show ?thesis
  proof (cases r)
    case (Inl e)
    with gen assms show ?thesis
      by (simp add: generate_audio_def failure_def split: if_splits)
  next
    case (Inr x)
    with gen assms show ?thesis by (simp add: generate_audio_def)
  qed
qed

lemma generate_audio_message: "carries_message (fst (generate_audio env job_input w))"
proof -
  obtain r w' where gen: "generate_audio_try env job_input w = (r, w')"
    by (cases "generate_audio_try env job_input w")
  show ?thesis
  proof (cases r)
    case (Inl e)
    with gen show ?thesis by (simp add: generate_audio_def failure_def)
  next
    case (Inr x)
    with gen have ret: "generate_audio_try env job_input w = (Inr x, w')" by simp
    from generate_audio_try_returns [OF ret] have "carries_message x"
      by (auto simp: failure_def dest: run_generation_message)
    with ret show ?thesis by (simp add: generate_audio_result)
  qed
qed

text \<open>
  Claim C10. Whenever \<open>generate_audio\<close> returns a success, its \<open>format\<close> is what
  \<open>validate_output_format\<close> makes of the \<open>output_format\<close> the job asked for (wav
  when it names none), whatever file the search selected. It can differ from the
  encoding of the bytes returned: the job that names no format, run where the
  backend's tree holds only mp3 files, has the fallback search select and read
  \<open>new.mp3\<close> and returns its bytes with the format wav.
\<close>

theorem C10_reported_format_is_the_requested_one:
  "(fst (generate_audio env job_input w) = Success d f s n \<longrightarrow>
      (\<exists>raw. py_get job_input ''output_format'' (PStr ''wav'') = Inr raw
         \<and> validate_output_format raw = Inr f))
   \<and> py_get plain_job ''output_format'' (PStr ''wav'') = Inr (PStr ''wav'')
   \<and> find_audio_files left_with_mp3 ''wav'' =
       [(''/app/VibeVoice/outputs/old.mp3'', File 3 ''ID3-old''),
        (''/app/VibeVoice/outputs/new.mp3'', File 7 ''ID3-new'')]
   \<and> fst (generate_audio (surroundings (Inr (Completed 0 [] [])) left_with_mp3)
          plain_job fresh_world) = Success ''ID3-new'' ''wav'' [''Alice'', ''Bob''] 32
   \<and> ReadFile ''/app/VibeVoice/outputs/new.mp3''
       \<in> set (trace (snd (generate_audio (surroundings (Inr (Completed 0 [] [])) left_with_mp3)
                 plain_job fresh_world)))"
proof (intro conjI impI)
  assume "fst (generate_audio env job_input w) = Success d f s n"
  from generate_audio_success [OF this]
  obtain w' where "generate_audio_try env job_input w = (Inr (Success d f s n), w')" ..
  from generate_audio_try_returns [OF this]
  obtain body speaker_names output_format txt_path w3 w4 where
    v: "validate_inputs job_input = Inr (body, speaker_names, output_format)"
    and rg: "run_generation env body speaker_names output_format txt_path w3 =
        (Inr (Success d f s n), w4)"
    by (auto simp: failure_def)
  from run_generation_success [OF rg] have "f = output_format" by simp
  with validate_inputs_format [OF v]
  show "\<exists>raw. py_get job_input ''output_format'' (PStr ''wav'') = Inr raw
         \<and> validate_output_format raw = Inr f" by simp
next
  show "py_get plain_job ''output_format'' (PStr ''wav'') = Inr (PStr ''wav'')"
    by (simp add: py_get_def plain_job_def)
  show "find_audio_files left_with_mp3 ''wav'' =
       [(''/app/VibeVoice/outputs/old.mp3'', File 3 ''ID3-old''),
        (''/app/VibeVoice/outputs/new.mp3'', File 7 ''ID3-new'')]"
    using search_left_with_mp3 by (simp add: find_audio_files_spec)
  show "fst (generate_audio (surroundings (Inr (Completed 0 [] [])) left_with_mp3)
          plain_job fresh_world) = Success ''ID3-new'' ''wav'' [''Alice'', ''Bob''] 32"
    unfolding successful_job by simp
  show "ReadFile ''/app/VibeVoice/outputs/new.mp3''
       \<in> set (trace (snd (generate_audio (surroundings (Inr (Completed 0 [] [])) left_with_mp3)
                 plain_job fresh_world)))"
    unfolding successful_job by simp
qed

theorem C10_reported_format_is_the_requested_one_witness:
  "fst (generate_audio (surroundings (Inr (Completed 0 [] [])) left_with_mp3)
          (PDict [(''text'', PStr ''Hello''), (''output_format'', PStr ''FLAC'')])
          fresh_world) = Success ''ID3-new'' ''flac'' [''Alice'', ''Bob''] 5
   \<and> py_get (PDict [(''text'', PStr ''Hello''), (''output_format'', PStr ''FLAC'')])
         ''output_format'' (PStr ''wav'') = Inr (PStr ''FLAC'')
   \<and> validate_output_format (PStr ''FLAC'') = Inr ''flac''"
proof -
  let ?job = "PDict [(''text'', PStr ''Hello''), (''output_format'', PStr ''FLAC'')]"
  let ?env = "surroundings (Inr (Completed 0 [] [])) left_with_mp3"
  have up: "lower ''FLAC'' = ''flac''" by code_simp
  have res: "fst (generate_audio ?env ?job fresh_world) =
      Success ''ID3-new'' ''flac'' [''Alice'', ''Bob''] 5"
    by (simp add: gen_defs os_defs example_defs left_with_mp3_def up)
  have got: "py_get ?job ''output_format'' (PStr ''wav'') = Inr (PStr ''FLAC'')"
    by (simp add: py_get_def)
  from C10_reported_format_is_the_requested_one
    [of ?env ?job fresh_world "''ID3-new''" "''flac''" "[''Alice'', ''Bob'']" 5] res got
  have "validate_output_format (PStr ''FLAC'') = Inr ''flac''" by simp
  with res got show ?thesis by simp
qed

section \<open>The boundary of \<open>handler\<close>\<close>

text \<open>
  Claim C8. For every job, every state of the process and every answer of the
  surroundings, \<open>handler\<close> returns a result and raises nothing, and the result is a
  success or a failure with a message. An exception that leaves the \<open>try\<close> block of
  \<open>handler\<close> becomes the failure "Handler failed: ..." with its message, and one that
  leaves the \<open>try\<close> block of \<open>generate_audio\<close> becomes a failure with a message
  there. The exceptions are those of class \<open>Exception\<close>; \<open>KeyboardInterrupt\<close> and
  \<open>SystemExit\<close>, which no \<open>except Exception\<close> catches, are not modelled.
\<close>

theorem C8_handler_returns_a_result:
  "(\<exists>r. fst (handler env job w) = Inr r \<and> carries_message r)
   \<and> (\<forall>e. fst (handler_try env job w) = Inl e \<longrightarrow>
          fst (handler env job w) = Inr (failure (''Handler failed: '' @ message e)))
   \<and> (\<forall>e. fst (generate_audio_try env job w) = Inl e \<longrightarrow>
          (\<exists>msg. fst (generate_audio env job w) = failure msg \<and> msg \<noteq> []))"
proof (intro conjI allI impI)
  obtain r w' where ht: "handler_try env job w = (r, w')"
    by (cases "handler_try env job w")
  show "\<exists>r. fst (handler env job w) = Inr r \<and> carries_message r"
  proof (cases r)
    case (Inl e)
    with ht show ?thesis by (simp add: handler_def failure_def)
  next
    case (Inr x)
    have gm: "carries_message y" if "generate_audio env j w = (y, w2)" for j y w2
      using generate_audio_message [of env j w] that by simp
    from ht Inr have "carries_message x"
      by (auto simp: handler_try_def usage_def Let_def dest: gm
          split: sum.splits if_splits prod.splits)
    with ht Inr show ?thesis by (simp add: handler_def)
  qed
next
  fix e
  assume "fst (handler_try env job w) = Inl e"
  then show "fst (handler env job w) = Inr (failure (''Handler failed: '' @ message e))"
    by (cases "handler_try env job w") (simp add: handler_def)
next
  fix e
  assume "fst (generate_audio_try env job w) = Inl e"
  then show "\<exists>msg. fst (generate_audio env job w) = failure msg \<and> msg \<noteq> []"
    by (cases "generate_audio_try env job w") (auto simp: generate_audio_def failure_def)
qed

theorem C8_handler_returns_a_result_witness:
  "fst (handler_try (surroundings (Inr (Completed 0 [] [])) []) PNone fresh_world) =
     Inl (attribute_error PNone ''get'')
   \<and> fst (handler (surroundings (Inr (Completed 0 [] [])) []) PNone fresh_world) =
     Inr (failure (''Handler failed: '' @ message (attribute_error PNone ''get'')))
   \<and> fst (handler_try (surroundings (Inr (Completed 0 [] [])) [])
         (PDict [(''input'', PInt 5)]) fresh_world) =
     Inl (Exn TypeError (''argument of type '' @ [CHR 0x27] @ ''int'' @ [CHR 0x27]
            @ '' is not iterable''))
   \<and> fst (generate_audio_try (surroundings (Inr (Completed 0 [] [])) [])
         (PDict [(''text'', PStr ''Hi''), (''output_format'', PInt 5)]) fresh_world) =
     Inl (attribute_error (PInt 5) ''lower'')
   \<and> fst (handler (surroundings (Inr (Completed 0 [] [])) [])
         (PDict [(''input'', PDict [(''text'', PStr ''Hi''), (''output_format'', PInt 5)])])
         fresh_world) =
     Inr (failure (''Generation failed: '' @ message (attribute_error (PInt 5) ''lower'')))"
proof -
  let ?env = "surroundings (Inr (Completed 0 [] [])) []"
  let ?bad = "PDict [(''text'', PStr ''Hi''), (''output_format'', PInt 5)]"
  have a: "fst (handler_try ?env PNone fresh_world) = Inl (attribute_error PNone ''get'')"
    by (simp add: handler_try_def py_get_def)
  have b: "fst (handler_try ?env (PDict [(''input'', PInt 5)]) fresh_world) =
     Inl (Exn TypeError (''argument of type '' @ [CHR 0x27] @ ''int'' @ [CHR 0x27]
            @ '' is not iterable''))"
    by (simp add: handler_try_def py_get_def py_contains_def)
  have c: "fst (generate_audio_try ?env ?bad fresh_world) = Inl (attribute_error (PInt 5) ''lower'')"
    by (simp add: generate_audio_try_def validate_inputs_def py_get_def validate_text_def
        validate_output_format_def py_lower_def strip_def isspace_def whitespace_def)
  have d: "fst (handler ?env (PDict [(''input'', ?bad)]) fresh_world) =
     Inr (failure (''Generation failed: '' @ message (attribute_error (PInt 5) ''lower'')))"
    using c
    by (cases "generate_audio_try ?env ?bad fresh_world")
      (simp add: handler_def handler_try_def py_get_def py_contains_def generate_audio_def
        attribute_error_def)
  from C8_handler_returns_a_result [of ?env PNone fresh_world] a
  have "fst (handler ?env PNone fresh_world) =
     Inr (failure (''Handler failed: '' @ message (attribute_error PNone ''get'')))"
    by simp
  with a b c d show ?thesis by simp
qed

section \<open>Calls of \<open>initialize_model\<close> in sequence and overlapping\<close>







end
